theory Spec2Isabelle
  imports Complex_Main "HOL-Library.Multiset"
begin

section \<open>Annual flying stars (fengshui-calc.js)\<close>

text \<open>
  \<^verbatim>\<open>calcFlyingStars(year)\<close> builds an array of nine palace objects. Each object carries
  \<^verbatim>\<open>position\<close>, \<^verbatim>\<open>row\<close>, \<^verbatim>\<open>col\<close>, \<^verbatim>\<open>star\<close> and the display attributes spread from
  \<^verbatim>\<open>FLYING_STARS[star]\<close> (name, colour, description); the display attributes are functions
  of \<^verbatim>\<open>star\<close> alone and are not part of the record below. Palace names are written in
  pinyin.
\<close>

record palace =
  position :: string
  row :: int
  col :: int
  star :: int

definition centerStar :: "int \<Rightarrow> int" where
  "centerStar year = (if year \<ge> 2024 then 9 else if year \<ge> 2004 then 8 else 7)"

definition positions :: "(string \<times> int \<times> int) list" where
  "positions =
     [(''kan'', 2, 1), (''kun'', 3, 0), (''zhen'', 3, 1), (''xun'', 3, 2),
      (''qian'', 0, 2), (''dui'', 0, 1), (''gen'', 0, 0), (''li'', 1, 2)]"

text \<open>The body of the \<^verbatim>\<open>for\<close> loop: advance \<^verbatim>\<open>currentStar\<close>, then push the palace.\<close>

fun flyForward :: "int \<Rightarrow> (string \<times> int \<times> int) list \<Rightarrow> palace list" where
  "flyForward currentStar [] = []"
| "flyForward currentStar ((pos, r, c) # ps) =
     (let next = (if currentStar \<ge> 9 then 1 else currentStar + 1)
      in \<lparr>position = pos, row = r, col = c, star = next\<rparr> # flyForward next ps)"

definition calcFlyingStars :: "int \<Rightarrow> palace list" where
  "calcFlyingStars year =
     \<lparr>position = ''zhonggong'', row = 1, col = 1, star = centerStar year\<rparr>
       # flyForward (centerStar year) positions"

definition grid3 :: "(int \<times> int) set" where
  "grid3 = {0, 1, 2} \<times> {0, 1, 2}"

section \<open>JavaScript arithmetic and array access\<close>

text \<open>
  The remainder operator \<^verbatim>\<open>%\<close> of JavaScript truncates towards zero: the result has the
  sign of the dividend. The source always wraps it as \<^verbatim>\<open>((a % n) + n) % n\<close>.
  Reading an array outside its bounds yields \<^verbatim>\<open>undefined\<close>, written here as the string
  \<open>''undefined''\<close>.
\<close>

definition js_rem :: "int \<Rightarrow> int \<Rightarrow> int" where
  "js_rem a b = sgn a * (\<bar>a\<bar> mod \<bar>b\<bar>)"

definition js_nth :: "string list \<Rightarrow> int \<Rightarrow> string" where
  "js_nth xs i = (if 0 \<le> i \<and> i < int (length xs) then xs ! nat i else ''undefined'')"

text \<open>\<^verbatim>\<open>Array.prototype.indexOf\<close>: the first position of an element, or -1.\<close>

fun indexOf :: "string list \<Rightarrow> string \<Rightarrow> int" where
  "indexOf [] x = -1"
| "indexOf (y # ys) x =
     (if x = y then 0 else (let r = indexOf ys x in if r < 0 then -1 else r + 1))"

section \<open>Solar terms by linear offsets (bazi.js, getSolarTerms)\<close>

text \<open>
  The 24 term names are an enumeration (the source uses the Chinese names as object
  keys). Fractional constants of the source are exact rationals here; the source
  evaluates them in double precision, which gives the same \<^verbatim>\<open>Math.floor\<close> whenever the
  exact sum is not an integer.
\<close>

datatype term_name =
  XiaoHan | DaHan | LiChun | YuShui | JingZhe | ChunFen
  | QingMing | GuYu | LiXia | XiaoMan | MangZhong | XiaZhi
  | XiaoShu | DaShu | LiQiu | ChuShu | BaiLu | QiuFen
  | HanLu | ShuangJiang | LiDong | XiaoXue | DaXue | DongZhi

record solar_term =
  st_month :: int
  st_day :: int
  st_hour :: int
  st_minute :: int
  st_year :: int

definition termNames :: "term_name list" where
  "termNames =
     [XiaoHan, DaHan, LiChun, YuShui, JingZhe, ChunFen, QingMing, GuYu,
      LiXia, XiaoMan, MangZhong, XiaZhi, XiaoShu, DaShu, LiQiu, ChuShu,
      BaiLu, QiuFen, HanLu, ShuangJiang, LiDong, XiaoXue, DaXue, DongZhi]"

text \<open>The table \<^verbatim>\<open>base\<close>: month, day, hour, minute of each term in the year 2000.\<close>

definition base :: "(int \<times> int \<times> int \<times> int) list" where
  "base =
     [(1, 5, 15, 0), (1, 20, 9, 0), (2, 4, 3, 14), (2, 19, 0, 29),
      (3, 5, 23, 29), (3, 20, 23, 34), (4, 4, 19, 42), (4, 20, 2, 20),
      (5, 5, 15, 32), (5, 21, 3, 43), (6, 5, 12, 32), (6, 21, 7, 0),
      (7, 7, 5, 5), (7, 22, 22, 30), (8, 7, 15, 39), (8, 23, 4, 34),
      (9, 7, 12, 8), (9, 23, 3, 55), (10, 8, 9, 21), (10, 23, 4, 15),
      (11, 7, 2, 20), (11, 22, 4, 36), (12, 7, 1, 10), (12, 22, 0, 28)]"

definition termOffsets :: "rat list" where
  "termOffsets =
     [559 / 100, 2012 / 100, 387 / 100, 1983 / 100, 563 / 100, 2065 / 100,
      560 / 100, 2088 / 100, 639 / 100, 2137 / 100, 596 / 100, 2195 / 100,
      793 / 100, 2314 / 100, 750 / 100, 2304 / 100, 869 / 100, 2342 / 100,
      864 / 100, 2396 / 100, 786 / 100, 2260 / 100, 718 / 100, 2194 / 100]"

definition isLeap :: "int \<Rightarrow> bool" where
  "isLeap y = ((js_rem y 4 = 0 \<and> js_rem y 100 \<noteq> 0) \<or> js_rem y 400 = 0)"

definition monthDays :: "bool \<Rightarrow> int list" where
  "monthDays leap = [31, if leap then 29 else 28, 31, 30, 31, 30, 31, 31, 30, 31, 30, 31]"

text \<open>
  The \<^verbatim>\<open>while (day > monthDays[month - 1])\<close> loop. The month stays within 1..12, where
  the table is defined; outside it the comparison with \<^verbatim>\<open>undefined\<close> is false and the
  loop stops.
\<close>

function carryMonths :: "bool \<Rightarrow> int \<Rightarrow> int \<Rightarrow> int \<times> int" where
  "carryMonths leap day month =
     (if 1 \<le> month \<and> month \<le> 12 \<and> day > monthDays leap ! nat (month - 1)
      then carryMonths leap (day - monthDays leap ! nat (month - 1))
             (if month + 1 > 12 then 1 else month + 1)
      else (month, day))"
  by pat_completeness auto
termination
proof (relation "measure (\<lambda>(leap, day, month). nat day)")
  show "wf (measure (\<lambda>(leap, day, month). nat day))"
    by simp
next
  fix leap :: bool and day month :: int
  assume a: "1 \<le> month \<and> month \<le> 12 \<and> monthDays leap ! nat (month - 1) < day"
  have "\<forall>x \<in> set (monthDays leap). 28 \<le> x"
    by (simp add: monthDays_def)
  moreover from a have "1 \<le> month" "month \<le> 12"
    by simp_all
  then have "nat (month - 1) < length (monthDays leap)"
    by (simp add: monthDays_def)
  ultimately have "28 \<le> monthDays leap ! nat (month - 1)"
    using nth_mem by blast
  with a show "((leap, day - monthDays leap ! nat (month - 1),
                 if 12 < month + 1 then 1 else month + 1), leap, day, month)
        \<in> measure (\<lambda>(leap, day, month). nat day)"
    by simp
qed

declare carryMonths.simps [simp del]

text \<open>
  \<^verbatim>\<open>getDaysFromNewYear\<close>: \<open>dayOffsetOf\<close> is the final value of its variable
  \<^verbatim>\<open>dayOffset\<close> (year drift plus the empirical offset of the term).
\<close>

definition dayOffsetOf :: "int \<Rightarrow> nat \<Rightarrow> rat" where
  "dayOffsetOf y termIndex =
     (let y2000 = y - 2000;
          yearCorrection = (of_int y2000 :: rat) * (2 / 10000)
      in of_int y2000 * (2422 / 10000) + yearCorrection + termOffsets ! termIndex)"

definition getDaysFromNewYear :: "int \<Rightarrow> nat \<Rightarrow> int \<times> int \<times> int \<times> int" where
  "getDaysFromNewYear y termIndex =
     (let (bmonth, bday, bhour, bminute) = base ! termIndex;
          (month, day) = carryMonths (isLeap y) \<lfloor>of_int bday + dayOffsetOf y termIndex\<rfloor> bmonth
      in (month, day, bhour, bminute))"

text \<open>
  The body of the \<^verbatim>\<open>for\<close> loop of \<^verbatim>\<open>getSolarTerms\<close>: the object stored under the
  \<open>i\<close>-th name, with the year moved on when the month exceeds 12.
\<close>

definition solarTermAt :: "int \<Rightarrow> nat \<Rightarrow> solar_term" where
  "solarTermAt year i =
     (let (month, day, hour, minute) = getDaysFromNewYear year i
      in if month > 12
         then \<lparr>st_month = month - 12, st_day = day, st_hour = hour, st_minute = minute,
                st_year = year + 1\<rparr>
         else \<lparr>st_month = month, st_day = day, st_hour = hour, st_minute = minute,
                st_year = year\<rparr>)"

text \<open>
  The result object of \<^verbatim>\<open>getSolarTerms\<close> as an association list in insertion order
  (the 24 keys are distinct).
\<close>

definition getSolarTerms :: "int \<Rightarrow> (term_name \<times> solar_term) list" where
  "getSolarTerms year = map (\<lambda>i. (termNames ! i, solarTermAt year i)) [0 ..< 24]"

text \<open>
  Chronological order of two timestamps: lexicographic on year, month, day, hour, minute.
\<close>

definition earlier :: "solar_term \<Rightarrow> solar_term \<Rightarrow> bool" where
  "earlier a b =
     (st_year a < st_year b \<or>
      (st_year a = st_year b \<and>
       (st_month a < st_month b \<or>
        (st_month a = st_month b \<and>
         (st_day a < st_day b \<or>
          (st_day a = st_day b \<and>
           (st_hour a < st_hour b \<or>
            (st_hour a = st_hour b \<and> st_minute a < st_minute b))))))))"

definition termDates :: "int \<Rightarrow> solar_term list" where
  "termDates year = map snd (getSolarTerms year)"

text \<open>
  \<^verbatim>\<open>getNearestSolarTerm\<close> keeps four variables, all \<^verbatim>\<open>null\<close> at first. It scans the
  last two terms of the previous year, then the terms of the year in order (leaving the
  loop at the first term after the date), then, if no next term was found, the first two
  terms of the following year.
\<close>

record nearest =
  prevTerm :: "term_name option"
  prevDate :: "solar_term option"
  nextTerm :: "term_name option"
  nextDate :: "solar_term option"

fun scanLastTerms ::
  "int \<Rightarrow> int \<Rightarrow> (term_name \<times> solar_term) list \<Rightarrow> term_name list \<Rightarrow> nearest \<Rightarrow> nearest" where
  "scanLastTerms year dateNum prevYearTerms [] s = s"
| "scanLastTerms year dateNum prevYearTerms (t # ts) s =
     (case map_of prevYearTerms t of
        None \<Rightarrow> scanLastTerms year dateNum prevYearTerms ts s
      | Some td \<Rightarrow>
          (let tdNum = (if st_year td \<noteq> 0 then st_year td else year - 1) * 10000
                         + st_month td * 100 + st_day td
           in if tdNum \<le> dateNum
              then scanLastTerms year dateNum prevYearTerms ts
                     (s\<lparr>prevTerm := Some t, prevDate := Some td\<rparr>)
              else scanLastTerms year dateNum prevYearTerms ts s))"

fun scanYearTerms ::
  "int \<Rightarrow> (term_name \<times> solar_term) list \<Rightarrow> term_name list \<Rightarrow> nearest \<Rightarrow> nearest" where
  "scanYearTerms dateNum terms [] s = s"
| "scanYearTerms dateNum terms (t # ts) s =
     (case map_of terms t of
        None \<Rightarrow> scanYearTerms dateNum terms ts s
      | Some td \<Rightarrow>
          (let tdNum = st_year td * 10000 + st_month td * 100 + st_day td
           in if tdNum \<le> dateNum
              then scanYearTerms dateNum terms ts (s\<lparr>prevTerm := Some t, prevDate := Some td\<rparr>)
              else if nextTerm s = None
              then s\<lparr>nextTerm := Some t, nextDate := Some td\<rparr>
              else scanYearTerms dateNum terms ts s))"

fun scanFirstTerms ::
  "(term_name \<times> solar_term) list \<Rightarrow> term_name list \<Rightarrow> nearest \<Rightarrow> nearest" where
  "scanFirstTerms nextYearTerms [] s = s"
| "scanFirstTerms nextYearTerms (t # ts) s =
     (case map_of nextYearTerms t of
        None \<Rightarrow> scanFirstTerms nextYearTerms ts s
      | Some td \<Rightarrow> s\<lparr>nextTerm := Some t, nextDate := Some td\<rparr>)"

definition getNearestSolarTerm :: "int \<Rightarrow> int \<Rightarrow> int \<Rightarrow> nearest" where
  "getNearestSolarTerm year month day =
     (let terms = getSolarTerms year;
          dateNum = year * 10000 + month * 100 + day;
          s0 = \<lparr>prevTerm = None, prevDate = None, nextTerm = None, nextDate = None\<rparr>;
          prevYearTerms = getSolarTerms (year - 1);
          s1 = scanLastTerms year dateNum prevYearTerms [DaXue, DongZhi] s0;
          s2 = scanYearTerms dateNum terms termNames s1
      in if nextTerm s2 = None
         then scanFirstTerms (getSolarTerms (year + 1)) [XiaoHan, DaHan] s2
         else s2)"

section \<open>Constant tables (bazi.js)\<close>

text \<open>Stems, branches, elements, zodiac animals and polarities, in pinyin.\<close>

definition STEMS :: "string list" where
  "STEMS = [''jia'', ''yi'', ''bing'', ''ding'', ''wu'', ''ji'', ''geng'', ''xin'', ''ren'', ''gui'']"

definition BRANCHES :: "string list" where
  "BRANCHES = [''zi'', ''chou'', ''yin'', ''mao'', ''chen'', ''si'', ''wu'', ''wei'',
               ''shen'', ''you'', ''xu'', ''hai'']"

definition STEM_ELEMENTS :: "string list" where
  "STEM_ELEMENTS = [''mu'', ''mu'', ''huo'', ''huo'', ''tu'', ''tu'', ''jin'', ''jin'',
                    ''shui'', ''shui'']"

definition BRANCH_ELEMENTS :: "string list" where
  "BRANCH_ELEMENTS = [''shui'', ''tu'', ''mu'', ''mu'', ''tu'', ''huo'', ''huo'', ''tu'',
                      ''jin'', ''jin'', ''tu'', ''shui'']"

definition ZODIAC :: "string list" where
  "ZODIAC = [''shu'', ''niu'', ''hu'', ''tu'', ''long'', ''she'', ''ma'', ''yang'',
             ''hou'', ''ji'', ''gou'', ''zhu'']"

definition STEM_YIN_YANG :: "string list" where
  "STEM_YIN_YANG = [''yang'', ''yin'', ''yang'', ''yin'', ''yang'', ''yin'', ''yang'', ''yin'',
                    ''yang'', ''yin'']"

section \<open>Month and year pillars from the solar terms (bazi.js)\<close>

text \<open>
  The \<^verbatim>\<open>if / else if\<close> chain of \<^verbatim>\<open>getMonthFromSolarTerm\<close> that turns \<^verbatim>\<open>prevTerm\<close> into
  \<^verbatim>\<open>monthIndex\<close>, in the order of the source: first the twelve sectional terms, then the
  mid terms, then the default.
\<close>

definition monthIndexOf :: "term_name option \<Rightarrow> int \<Rightarrow> int" where
  "monthIndexOf prev month =
     (if prev = Some LiChun then 0
      else if prev = Some JingZhe then 1
      else if prev = Some QingMing then 2
      else if prev = Some LiXia then 3
      else if prev = Some MangZhong then 4
      else if prev = Some XiaoShu then 5
      else if prev = Some LiQiu then 6
      else if prev = Some BaiLu then 7
      else if prev = Some HanLu then 8
      else if prev = Some LiDong then 9
      else if prev = Some DaXue then 10
      else if prev = Some XiaoHan then 11
      else if prev = Some YuShui \<or> prev = Some ChunFen then 0
      else if prev = Some GuYu then 1
      else if prev = Some XiaoMan then 3
      else if prev = Some XiaZhi then 4
      else if prev = Some DaShu then 5
      else if prev = Some ChuShu then 6
      else if prev = Some QiuFen then 7
      else if prev = Some ShuangJiang then 8
      else if prev = Some XiaoXue then 9
      else if prev = Some DongZhi then 10
      else if prev = Some DaHan then 11
      else (month - 1) div 2)"

definition monthBranchNames :: "string list" where
  "monthBranchNames = [''yin'', ''mao'', ''chen'', ''si'', ''wu'', ''wei'', ''shen'', ''you'',
                       ''xu'', ''hai'', ''zi'', ''chou'']"

record month_info =
  monthStem :: string
  monthBranch :: string
  monthStemIdx :: int
  monthBranchIdx :: int
  termName :: "term_name option"

text \<open>The field \<^verbatim>\<open>termName\<close> is \<^verbatim>\<open>prevTerm || 'unknown'\<close>; \<open>None\<close> stands for the latter.\<close>

definition getMonthFromSolarTerm :: "int \<Rightarrow> int \<Rightarrow> int \<Rightarrow> int \<Rightarrow> int \<Rightarrow> month_info" where
  "getMonthFromSolarTerm year month day hour minute =
     (let prev = prevTerm (getNearestSolarTerm year month day);
          monthIndex = monthIndexOf prev month;
          yStemIdx = js_rem (js_rem (year - 4) 10 + 10) 10;
          monthStemBase = [2, 4, 6, 8, 0, 2, 4, 6, 8, 0] ! nat yStemIdx;
          mStemIdx = js_rem (monthStemBase + monthIndex) 10;
          mBranchIdx = js_rem (monthIndex + 2) 12
      in \<lparr>monthStem = js_nth STEMS mStemIdx,
          monthBranch = js_nth monthBranchNames mBranchIdx,
          monthStemIdx = mStemIdx,
          monthBranchIdx = mBranchIdx,
          termName = prev\<rparr>)"

record year_info =
  yearStem :: string
  yearBranch :: string
  yearStemIdx :: int
  yearBranchIdx :: int
  zodiac :: string
  actualYear :: int

text \<open>
  \<^verbatim>\<open>getYearFromSolarTerm\<close> and \<^verbatim>\<open>getYearSimplified\<close> end with the same lines, which
  build the result from the year that counts; \<open>yearInfoOf\<close> is that common tail.
\<close>

definition yearInfoOf :: "int \<Rightarrow> year_info" where
  "yearInfoOf y =
     (let sIdx = js_rem (js_rem (y - 4) 10 + 10) 10;
          bIdx = js_rem (js_rem (y - 4) 12 + 12) 12
      in \<lparr>yearStem = js_nth STEMS sIdx, yearBranch = js_nth BRANCHES bIdx,
          yearStemIdx = sIdx, yearBranchIdx = bIdx,
          zodiac = js_nth ZODIAC bIdx, actualYear = y\<rparr>)"

definition getYearSimplified :: "int \<Rightarrow> year_info" where
  "getYearSimplified year = yearInfoOf year"

definition getYearFromSolarTerm :: "int \<Rightarrow> int \<Rightarrow> int \<Rightarrow> year_info" where
  "getYearFromSolarTerm year month day =
     (case map_of (getSolarTerms year) LiChun of
        None \<Rightarrow> getYearSimplified year
      | Some lichun \<Rightarrow>
          (let birthDate = year * 10000 + month * 100 + day;
               lichunDate = st_year lichun * 10000 + st_month lichun * 100 + st_day lichun
           in yearInfoOf (if birthDate < lichunDate then year - 1 else year)))"

section \<open>Onset of the luck pillars (bazi.js, calcDaYunPrecise)\<close>

text \<open>
  The function builds three \<^verbatim>\<open>Date\<close> objects and subtracts them. The \<^verbatim>\<open>Date\<close>
  constructor belongs to the host (local time zone, daylight saving); it is a parameter
  \<open>newDate\<close> giving the milliseconds since the epoch for year, month index, day, hour
  and minute. \<^verbatim>\<open>Math.round\<close> is \<open>js_round\<close>. Direction strings are in pinyin:
  \<open>''shunxing''\<close> is forward, \<open>''nixing''\<close> is backward.

  The quotients are exact rationals here, where the source divides in double precision.
  The two agree except where the exact value of \<^verbatim>\<open>days / 3 * 10\<close> ends in one half:
  for 8.85 days it is 29.5, rounded to 30 and to the age 3, while the double is
  29.499999999999996, rounded to 29 and to the age 2. The age before the clamp can so
  differ by one; the clamp to 1..20 and the direction do not depend on it.
\<close>

type_synonym date_ctor = "int \<Rightarrow> int \<Rightarrow> int \<Rightarrow> int \<Rightarrow> int \<Rightarrow> int"

text \<open>
  One concrete host, for evaluation: local time is UTC without daylight saving, and the
  year is at least 100 (smaller years are remapped by the constructor). The day number
  follows the proleptic Gregorian calendar; month indices and days outside their usual
  range carry over as in the language definition.
\<close>

definition daysFromCivil :: "int \<Rightarrow> int \<Rightarrow> int \<Rightarrow> int" where
  "daysFromCivil y m d =
     (let a = (14 - m) div 12;
          y2 = y + 4800 - a;
          m2 = m + 12 * a - 3
      in d + (153 * m2 + 2) div 5 + 365 * y2 + y2 div 4 - y2 div 100 + y2 div 400
           - 32045 - 2440588)"

definition utcDate :: date_ctor where
  "utcDate y monthIndex d h mi =
     (let ym = y + monthIndex div 12;
          mn = monthIndex mod 12;
          dayNum = daysFromCivil ym (mn + 1) 1 + (d - 1)
      in ((dayNum * 24 + h) * 60 + mi) * 60000)"

definition js_round :: "rat \<Rightarrow> int" where
  "js_round x = \<lfloor>x + 1 / 2\<rfloor>"

record dayun_calc =
  startAge :: int
  direction :: string
  daysToNext :: "int option"
  daysFromPrev :: "int option"
  dy_prevTerm :: "term_name option"
  dy_nextTerm :: "term_name option"
  details :: "string option"

definition calcDaYunPrecise ::
  "date_ctor \<Rightarrow> int \<Rightarrow> int \<Rightarrow> int \<Rightarrow> int \<Rightarrow> int \<Rightarrow> string \<Rightarrow> int \<Rightarrow> dayun_calc" where
  "calcDaYunPrecise newDate year month day hour minute gender yStemIdx =
     (let n = getNearestSolarTerm year month day
      in case (prevDate n, nextDate n) of
           (Some pd, Some nd) \<Rightarrow>
             (let birthDate = newDate year (month - 1) day hour minute;
                  nextDateTime = newDate (if st_year nd \<noteq> 0 then st_year nd else year)
                                   (st_month nd - 1) (st_day nd) (st_hour nd) (st_minute nd);
                  toNext0 = (of_int (nextDateTime - birthDate) :: rat) / (1000 * 60 * 60 * 24);
                  toNext = (if toNext0 < 0 then toNext0 + 365 else toNext0);
                  prevDateTime = newDate (if st_year pd \<noteq> 0 then st_year pd else year)
                                   (st_month pd - 1) (st_day pd) (st_hour pd) (st_minute pd);
                  fromPrev0 = (of_int (birthDate - prevDateTime) :: rat) / (1000 * 60 * 60 * 24);
                  fromPrev = (if fromPrev0 < 0 then fromPrev0 + 365 else fromPrev0);
                  isYangYear = (js_rem yStemIdx 2 = 0);
                  isMale = (gender = ''m'');
                  forward = ((isYangYear \<and> isMale) \<or> (\<not> isYangYear \<and> \<not> isMale));
                  age0 = (if forward then (of_int (js_round (toNext / 3 * 10)) :: rat) / 10
                          else of_int (js_round (fromPrev / 3 * 10)) / 10);
                  age1 = (if age0 < 1 then 1 else age0);
                  age2 = (if age1 > 20 then 20 else age1)
              in \<lparr>startAge = \<lfloor>age2\<rfloor>,
                  direction = (if forward then ''shunxing'' else ''nixing''),
                  daysToNext = Some (js_round toNext),
                  daysFromPrev = Some (js_round fromPrev),
                  dy_prevTerm = prevTerm n,
                  dy_nextTerm = nextTerm n,
                  details = None\<rparr>)
         | _ \<Rightarrow>
             \<lparr>startAge = 3, direction = ''shunxing'', daysToNext = None, daysFromPrev = None,
               dy_prevTerm = None, dy_nextTerm = None,
               details = Some ''jieqi jisuan yichang''\<rparr>)"

section \<open>Day pillar and the four pillars (bazi.js)\<close>

text \<open>
  \<^verbatim>\<open>getJulianDay\<close> of bazi.js returns a number ending in .5. The products
  \<^verbatim>\<open>365.25 * (year + 4716)\<close> and \<^verbatim>\<open>30.6001 * (month + 1)\<close> are exact rationals here.
\<close>

definition getJulianDay :: "int \<Rightarrow> int \<Rightarrow> int \<Rightarrow> rat" where
  "getJulianDay year month day =
     (let (y, m) = (if month \<le> 2 then (year - 1, month + 12) else (year, month));
          A = \<lfloor>(of_int y :: rat) / 100\<rfloor>;
          B = 2 - A + \<lfloor>(of_int A :: rat) / 4\<rfloor>
      in of_int \<lfloor>(36525 / 100 :: rat) * of_int (y + 4716)\<rfloor>
           + of_int \<lfloor>(306001 / 10000 :: rat) * of_int (m + 1)\<rfloor>
           + of_int day + of_int B - 15245 / 10)"

text \<open>The two lines of \<^verbatim>\<open>calcBaziPillars\<close> that turn the day number into indices.\<close>

definition dayStemIdxOf :: "int \<Rightarrow> int" where
  "dayStemIdxOf jd = js_rem (js_rem (jd + 49) 10 + 10) 10"

definition dayBranchIdxOf :: "int \<Rightarrow> int" where
  "dayBranchIdxOf jd = js_rem (js_rem (jd + 1) 12 + 12) 12"

record pillar =
  label :: string
  stem :: string
  branch :: string
  stemEle :: string
  branchEle :: string
  stemYY :: string

record luck_pillar =
  age :: int
  ageEnd :: int
  lp_stem :: string
  lp_branch :: string
  lp_stemEle :: string
  lp_branchEle :: string

text \<open>
  The result object of \<^verbatim>\<open>calcBaziPillars\<close>: the four pillars, the eight luck pillars and
  the onset data. The element counts, the na-yin names and the auxiliary spirits of the
  source are computed from the pillars afterwards and are not part of this record.
\<close>

record bazi_result =
  pillars :: "pillar list"
  daYun :: "luck_pillar list"
  info_zodiac :: string
  info_startAge :: int
  info_daYunForward :: bool
  info_daYunCalc :: dayun_calc

definition pillarNames :: "bazi_result \<Rightarrow> (string \<times> string) list" where
  "pillarNames r = map (\<lambda>p. (stem p, branch p)) (pillars r)"

definition hourStemBases :: "int list" where
  "hourStemBases = [0, 2, 4, 6, 8]"

definition calcBaziPillars ::
  "date_ctor \<Rightarrow> int \<Rightarrow> int \<Rightarrow> int \<Rightarrow> int \<Rightarrow> string \<Rightarrow> bazi_result" where
  "calcBaziPillars newDate year month day hour gender =
     (let yearInfo = getYearFromSolarTerm year month day;
          monthInfo = getMonthFromSolarTerm year month day 0 0;
          jd = \<lfloor>getJulianDay year month day\<rfloor>;
          dStemIdx = dayStemIdxOf jd;
          dBranchIdx = dayBranchIdxOf jd;
          hourBase = hourStemBases ! nat (js_rem dStemIdx 5);
          hStemIdx = js_rem (hourBase + hour) 10;
          ps = [\<lparr>label = ''nianzhu'', stem = yearStem yearInfo, branch = yearBranch yearInfo,
                  stemEle = js_nth STEM_ELEMENTS (yearStemIdx yearInfo),
                  branchEle = js_nth BRANCH_ELEMENTS (yearBranchIdx yearInfo),
                  stemYY = js_nth STEM_YIN_YANG (yearStemIdx yearInfo)\<rparr>,
                \<lparr>label = ''yuezhu'', stem = monthStem monthInfo, branch = monthBranch monthInfo,
                  stemEle = js_nth STEM_ELEMENTS (monthStemIdx monthInfo),
                  branchEle = js_nth BRANCH_ELEMENTS (monthBranchIdx monthInfo),
                  stemYY = js_nth STEM_YIN_YANG (monthStemIdx monthInfo)\<rparr>,
                \<lparr>label = ''rizhu'', stem = js_nth STEMS dStemIdx, branch = js_nth BRANCHES dBranchIdx,
                  stemEle = js_nth STEM_ELEMENTS dStemIdx,
                  branchEle = js_nth BRANCH_ELEMENTS dBranchIdx,
                  stemYY = js_nth STEM_YIN_YANG dStemIdx\<rparr>,
                \<lparr>label = ''shizhu'', stem = js_nth STEMS hStemIdx, branch = js_nth BRANCHES hour,
                  stemEle = js_nth STEM_ELEMENTS hStemIdx,
                  branchEle = js_nth BRANCH_ELEMENTS hour,
                  stemYY = js_nth STEM_YIN_YANG hStemIdx\<rparr>];
          daYunCalc = calcDaYunPrecise newDate year month day 0 0 gender (yearStemIdx yearInfo);
          daYunForward = (direction daYunCalc = ''shunxing'');
          dys = map (\<lambda>i. let offset = (if daYunForward then i + 1 else - (i + 1));
                              dyIdx = js_rem (monthStemIdx monthInfo + offset + 100) 10;
                              dyBIdx = js_rem (monthBranchIdx monthInfo + offset + 120) 12
                          in \<lparr>age = startAge daYunCalc + i * 10,
                              ageEnd = startAge daYunCalc + i * 10 + 9,
                              lp_stem = js_nth STEMS dyIdx,
                              lp_branch = js_nth BRANCHES dyBIdx,
                              lp_stemEle = js_nth STEM_ELEMENTS dyIdx,
                              lp_branchEle = js_nth BRANCH_ELEMENTS dyBIdx\<rparr>)
                  [0, 1, 2, 3, 4, 5, 6, 7]
      in \<lparr>pillars = ps, daYun = dys, info_zodiac = zodiac yearInfo,
          info_startAge = startAge daYunCalc, info_daYunForward = daYunForward,
          info_daYunCalc = daYunCalc\<rparr>)"

section \<open>Entry point (bazi.js, calcBazi)\<close>

text \<open>
  The form fields are read with \<^verbatim>\<open>parseInt\<close>; a year that does not parse is \<^verbatim>\<open>NaN\<close>,
  here \<open>None\<close>. The function either shows an alert and returns, or computes the chart
  and hands it to the renderer.
\<close>

datatype outcome = Alert string | Rendered bazi_result

definition calcBazi ::
  "date_ctor \<Rightarrow> int option \<Rightarrow> int \<Rightarrow> int \<Rightarrow> int \<Rightarrow> string \<Rightarrow> outcome" where
  "calcBazi newDate year month day hour gender =
     (case year of
        None \<Rightarrow> Alert ''qing shuru youxiao nianfen (1900-2100)''
      | Some y \<Rightarrow>
          if y = 0 \<or> y < 1900 \<or> y > 2100
          then Alert ''qing shuru youxiao nianfen (1900-2100)''
          else Rendered (calcBaziPillars newDate y month day hour gender))"

section \<open>The revision with astronomical solar terms (part_003)\<close>

text \<open>
  \<^verbatim>\<open>calcSolarTerm(year, termIndex)\<close> iterates on the solar longitude with \<^verbatim>\<open>Math.sin\<close>
  in double precision; it is a parameter of the functions below, so every result holds
  for whatever timestamps it returns. \<^verbatim>\<open>getJieqi\<close> calls it eleven times for the year
  and once for the following year (the cache only stores the result).
\<close>

type_synonym term_calc = "int \<Rightarrow> nat \<Rightarrow> solar_term"

definition JIEQI_INDEXES :: "nat list" where
  "JIEQI_INDEXES = [2, 4, 6, 8, 10, 12, 14, 16, 18, 20, 22, 0]"

definition getJieqi :: "term_calc \<Rightarrow> int \<Rightarrow> solar_term list" where
  "getJieqi calcSolarTerm year =
     map (\<lambda>i. calcSolarTerm year (JIEQI_INDEXES ! i)) [0 ..< 11]
       @ [calcSolarTerm (year + 1) (JIEQI_INDEXES ! 11)]"

definition JIEQI_BRANCH :: "int list" where
  "JIEQI_BRANCH = [2, 3, 4, 5, 6, 7, 8, 9, 10, 11, 0, 1]"

text \<open>
  The test \<^verbatim>\<open>isAfter\<close> of \<^verbatim>\<open>getMonthBranchIdx\<close>; the argument \<^verbatim>\<open>hour\<close> may be
  \<^verbatim>\<open>undefined\<close> (\<open>None\<close>).
\<close>

definition isAfter :: "int \<Rightarrow> int \<Rightarrow> int option \<Rightarrow> solar_term \<Rightarrow> bool" where
  "isAfter month day hour t =
     (month > st_month t \<or>
      (month = st_month t \<and> day > st_day t) \<or>
      (month = st_month t \<and> day = st_day t \<and>
       (case hour of None \<Rightarrow> False
        | Some h \<Rightarrow> h * 60 \<ge> st_hour t * 60 + st_minute t)))"

text \<open>The loop over the twelve terms: \<open>i\<close> is the loop index, left at the first term not passed.\<close>

fun scanJieqi :: "int \<Rightarrow> int \<Rightarrow> int option \<Rightarrow> solar_term list \<Rightarrow> nat \<Rightarrow> nat \<Rightarrow> nat" where
  "scanJieqi month day hour [] i lastIdx = lastIdx"
| "scanJieqi month day hour (t # ts) i lastIdx =
     (if isAfter month day hour t then scanJieqi month day hour ts (i + 1) i else lastIdx)"

definition getMonthBranchIdx :: "term_calc \<Rightarrow> int \<Rightarrow> int \<Rightarrow> int \<Rightarrow> int option \<Rightarrow> int" where
  "getMonthBranchIdx calcSolarTerm year month day hour =
     (let terms = getJieqi calcSolarTerm year;
          lichun = terms ! 0
      in if month < st_month lichun \<or> (month = st_month lichun \<and> day < st_day lichun)
         then JIEQI_BRANCH ! 11
         else JIEQI_BRANCH ! scanJieqi month day hour terms 0 0)"

definition HOUR_START :: "int list" where
  "HOUR_START = [23, 1, 3, 5, 7, 9, 11, 13, 15, 17, 19, 21]"

record stem_branch =
  stemIdx :: int
  branchIdx :: int

text \<open>
  In \<^verbatim>\<open>getYearStemBranch\<close> the birth minute is \<^verbatim>\<open>HOUR_START[hourBranchIdx] * 60\<close>; outside
  the table this is \<^verbatim>\<open>NaN\<close> and the comparison with it is false.
\<close>

definition bornBefore :: "solar_term \<Rightarrow> int \<Rightarrow> int \<Rightarrow> int option \<Rightarrow> bool" where
  "bornBefore lichun month day hourBranchIdx =
     (month < st_month lichun \<or>
      (month = st_month lichun \<and> day < st_day lichun) \<or>
      (month = st_month lichun \<and> day = st_day lichun \<and>
       (case hourBranchIdx of None \<Rightarrow> False
        | Some h \<Rightarrow> 0 \<le> h \<and> h < 12 \<and>
            HOUR_START ! nat h * 60 < st_hour lichun * 60 + st_minute lichun)))"

definition getYearStemBranch ::
  "term_calc \<Rightarrow> int \<Rightarrow> int \<Rightarrow> int \<Rightarrow> int option \<Rightarrow> stem_branch" where
  "getYearStemBranch calcSolarTerm year month day hourBranchIdx =
     (let terms = getJieqi calcSolarTerm year;
          lichun = terms ! 0;
          y = (if bornBefore lichun month day hourBranchIdx then year - 1 else year)
      in \<lparr>stemIdx = js_rem (js_rem (y - 4) 10 + 10) 10,
          branchIdx = js_rem (js_rem (y - 4) 12 + 12) 12\<rparr>)"

definition getMonthStemBranch ::
  "term_calc \<Rightarrow> int \<Rightarrow> int \<Rightarrow> int \<Rightarrow> int \<Rightarrow> int option \<Rightarrow> stem_branch" where
  "getMonthStemBranch calcSolarTerm yStemIdx year month day hourBranchIdx =
     (let bIdx = getMonthBranchIdx calcSolarTerm year month day hourBranchIdx;
          bases = [2, 4, 6, 8, 0];
          base5 = bases ! nat (js_rem yStemIdx 5);
          offset = js_rem (bIdx - 2 + 12) 12
      in \<lparr>stemIdx = js_rem (base5 + offset) 10, branchIdx = bIdx\<rparr>)"

text \<open>
  \<^verbatim>\<open>getDayStemBranch\<close> computes the day number with the constant 1524 (an integer) and
  anchors it at 2451551, which its comment gives as the day 2000-01-07.
\<close>

definition getDayStemBranch :: "int \<Rightarrow> int \<Rightarrow> int \<Rightarrow> stem_branch" where
  "getDayStemBranch year month day =
     (let (y, m) = (if month \<le> 2 then (year - 1, month + 12) else (year, month));
          A = \<lfloor>(of_int y :: rat) / 100\<rfloor>;
          B = 2 - A + \<lfloor>(of_int A :: rat) / 4\<rfloor>;
          JD = \<lfloor>(36525 / 100 :: rat) * of_int (y + 4716)\<rfloor>
                 + \<lfloor>(306001 / 10000 :: rat) * of_int (m + 1)\<rfloor>
                 + day + B - 1524;
          base0 = 2451551
      in \<lparr>stemIdx = js_rem (js_rem (JD - base0) 10 + 10) 10,
          branchIdx = js_rem (js_rem (JD - base0) 12 + 12) 12\<rparr>)"

definition getHourStemBranch :: "int \<Rightarrow> int \<Rightarrow> stem_branch" where
  "getHourStemBranch dStemIdx hourBranchIdx =
     (let bases = [0, 2, 4, 6, 8];
          base5 = bases ! nat (js_rem dStemIdx 5)
      in \<lparr>stemIdx = js_rem (base5 + hourBranchIdx) 10, branchIdx = hourBranchIdx\<rparr>)"

record pillar_idx =
  pi_label :: string
  pi_stemIdx :: int
  pi_branchIdx :: int
  pi_stem :: string
  pi_branch :: string
  pi_stemEle :: string
  pi_branchEle :: string

text \<open>
  The first \<^verbatim>\<open>calcBaziPillars\<close> of part_003 (the one built on \<^verbatim>\<open>getJieqi\<close>); it has the
  name of the function of bazi.js and is called \<open>calcBaziPillars_jieqi\<close> here.
\<close>

definition calcBaziPillars_jieqi ::
  "term_calc \<Rightarrow> int \<Rightarrow> int \<Rightarrow> int \<Rightarrow> int \<Rightarrow> string \<Rightarrow> pillar_idx list" where
  "calcBaziPillars_jieqi calcSolarTerm year month day hourBranchIdx gender =
     (let yr = getYearStemBranch calcSolarTerm year month day (Some hourBranchIdx);
          mo = getMonthStemBranch calcSolarTerm (stemIdx yr) year month day (Some hourBranchIdx);
          da = getDayStemBranch year month day;
          hr = getHourStemBranch (stemIdx da) hourBranchIdx
      in map (\<lambda>(l, p). \<lparr>pi_label = l, pi_stemIdx = stemIdx p, pi_branchIdx = branchIdx p,
                         pi_stem = js_nth STEMS (stemIdx p),
                         pi_branch = js_nth BRANCHES (branchIdx p),
                         pi_stemEle = js_nth STEM_ELEMENTS (stemIdx p),
                         pi_branchEle = js_nth BRANCH_ELEMENTS (branchIdx p)\<rparr>)
           [(''nianzhu'', yr), (''yuezhu'', mo), (''rizhu'', da), (''shizhu'', hr)])"

text \<open>
  The later \<^verbatim>\<open>getJulianDay\<close> of part_003 returns an integer; the later
  \<^verbatim>\<open>calcBaziPillars\<close> of part_003 feeds it to the same two index lines as bazi.js.
\<close>

definition getJulianDay_int :: "int \<Rightarrow> int \<Rightarrow> int \<Rightarrow> int" where
  "getJulianDay_int year month day =
     (let a = \<lfloor>(of_int (14 - month) :: rat) / 12\<rfloor>;
          y2 = year + 4800 - a;
          m2 = month + 12 * a - 3
      in day + \<lfloor>(of_int (153 * m2 + 2) :: rat) / 5\<rfloor> + 365 * y2
           + \<lfloor>(of_int y2 :: rat) / 4\<rfloor> - \<lfloor>(of_int y2 :: rat) / 100\<rfloor>
           + \<lfloor>(of_int y2 :: rat) / 400\<rfloor> - 32045)"

text \<open>The day pillar as each revision computes it, as a pair of stem and branch index.\<close>

definition dayPillar_bazi :: "int \<Rightarrow> int \<Rightarrow> int \<Rightarrow> int \<times> int" where
  "dayPillar_bazi year month day =
     (let jd = \<lfloor>getJulianDay year month day\<rfloor> in (dayStemIdxOf jd, dayBranchIdxOf jd))"

definition dayPillar_int :: "int \<Rightarrow> int \<Rightarrow> int \<Rightarrow> int \<times> int" where
  "dayPillar_int year month day =
     (let jd = getJulianDay_int year month day in (dayStemIdxOf jd, dayBranchIdxOf jd))"

section \<open>The later revision of the chart and of the entry point (part_003)\<close>

text \<open>
  part_003 repeats \<^verbatim>\<open>getSolarTerms\<close>, \<^verbatim>\<open>getNearestSolarTerm\<close>,
  \<^verbatim>\<open>getYearFromSolarTerm\<close> and \<^verbatim>\<open>calcDaYunPrecise\<close> of bazi.js word for word. Its
  \<^verbatim>\<open>getMonthFromSolarTerm\<close> differs in the branch index, which is the month index
  itself; its second \<^verbatim>\<open>calcBaziPillars\<close> passes the year that counts to the month
  pillar and uses the integer day number. The suffix \<open>_rev\<close> marks these revisions.
\<close>

definition getMonthFromSolarTerm_rev :: "int \<Rightarrow> int \<Rightarrow> int \<Rightarrow> int \<Rightarrow> int \<Rightarrow> month_info" where
  "getMonthFromSolarTerm_rev year month day hour minute =
     (let prev = prevTerm (getNearestSolarTerm year month day);
          monthIndex = monthIndexOf prev month;
          yStemIdx = js_rem (js_rem (year - 4) 10 + 10) 10;
          monthStemBase = [2, 4, 6, 8, 0, 2, 4, 6, 8, 0] ! nat yStemIdx;
          mStemIdx = js_rem (monthStemBase + monthIndex) 10;
          mBranchIdx = monthIndex
      in \<lparr>monthStem = js_nth STEMS mStemIdx,
          monthBranch = js_nth monthBranchNames mBranchIdx,
          monthStemIdx = mStemIdx,
          monthBranchIdx = mBranchIdx,
          termName = prev\<rparr>)"

definition calcBaziPillars_rev ::
  "date_ctor \<Rightarrow> int \<Rightarrow> int \<Rightarrow> int \<Rightarrow> int \<Rightarrow> string \<Rightarrow> bazi_result" where
  "calcBaziPillars_rev newDate year month day hour gender =
     (let yearInfo = getYearFromSolarTerm year month day;
          monthInfo = getMonthFromSolarTerm_rev (actualYear yearInfo) month day 0 0;
          jd = getJulianDay_int year month day;
          dStemIdx = dayStemIdxOf jd;
          dBranchIdx = dayBranchIdxOf jd;
          hourBase = hourStemBases ! nat (js_rem dStemIdx 5);
          hStemIdx = js_rem (hourBase + hour) 10;
          ps = [\<lparr>label = ''nianzhu'', stem = yearStem yearInfo, branch = yearBranch yearInfo,
                  stemEle = js_nth STEM_ELEMENTS (yearStemIdx yearInfo),
                  branchEle = js_nth BRANCH_ELEMENTS (yearBranchIdx yearInfo),
                  stemYY = js_nth STEM_YIN_YANG (yearStemIdx yearInfo)\<rparr>,
                \<lparr>label = ''yuezhu'', stem = monthStem monthInfo, branch = monthBranch monthInfo,
                  stemEle = js_nth STEM_ELEMENTS (monthStemIdx monthInfo),
                  branchEle = js_nth BRANCH_ELEMENTS (monthBranchIdx monthInfo),
                  stemYY = js_nth STEM_YIN_YANG (monthStemIdx monthInfo)\<rparr>,
                \<lparr>label = ''rizhu'', stem = js_nth STEMS dStemIdx, branch = js_nth BRANCHES dBranchIdx,
                  stemEle = js_nth STEM_ELEMENTS dStemIdx,
                  branchEle = js_nth BRANCH_ELEMENTS dBranchIdx,
                  stemYY = js_nth STEM_YIN_YANG dStemIdx\<rparr>,
                \<lparr>label = ''shizhu'', stem = js_nth STEMS hStemIdx, branch = js_nth BRANCHES hour,
                  stemEle = js_nth STEM_ELEMENTS hStemIdx,
                  branchEle = js_nth BRANCH_ELEMENTS hour,
                  stemYY = js_nth STEM_YIN_YANG hStemIdx\<rparr>];
          daYunCalc = calcDaYunPrecise newDate year month day 0 0 gender (yearStemIdx yearInfo);
          daYunForward = (direction daYunCalc = ''shunxing'');
          dys = map (\<lambda>i. let offset = (if daYunForward then i + 1 else - (i + 1));
                              dyIdx = js_rem (monthStemIdx monthInfo + offset + 100) 10;
                              dyBIdx = js_rem (monthBranchIdx monthInfo + offset + 120) 12
                          in \<lparr>age = startAge daYunCalc + i * 10,
                              ageEnd = startAge daYunCalc + i * 10 + 9,
                              lp_stem = js_nth STEMS dyIdx,
                              lp_branch = js_nth BRANCHES dyBIdx,
                              lp_stemEle = js_nth STEM_ELEMENTS dyIdx,
                              lp_branchEle = js_nth BRANCH_ELEMENTS dyBIdx\<rparr>)
                  [0, 1, 2, 3, 4, 5, 6, 7]
      in \<lparr>pillars = ps, daYun = dys, info_zodiac = zodiac yearInfo,
          info_startAge = startAge daYunCalc, info_daYunForward = daYunForward,
          info_daYunCalc = daYunCalc\<rparr>)"

text \<open>
  \<^verbatim>\<open>lunarToSolar\<close>: the table of lunar new year dates (year, solar month, solar day),
  the rough month lengths, and the loop that carries days into months.
\<close>

definition lunarNewYear :: "(int \<times> int \<times> int) list" where
  "lunarNewYear =
     [(1900, 1, 21), (1901, 2, 19), (1902, 2, 8), (1903, 1, 29), (1904, 2, 15), (1905, 2, 4),
      (1906, 1, 25), (1907, 2, 13), (1908, 2, 2), (1909, 1, 22), (1910, 2, 10), (1911, 1, 30),
      (1912, 2, 18), (1913, 2, 6), (1914, 1, 26), (1915, 2, 14), (1916, 2, 3), (1917, 1, 23),
      (1918, 2, 11), (1919, 2, 1), (1920, 1, 21), (1921, 2, 8), (1922, 1, 28), (1923, 2, 16),
      (1924, 2, 5), (1925, 1, 24), (1926, 2, 13), (1927, 2, 2), (1928, 1, 23), (1929, 2, 10),
      (1930, 1, 30), (1931, 2, 17), (1932, 2, 6), (1933, 1, 26), (1934, 2, 14), (1935, 2, 4),
      (1936, 1, 24), (1937, 2, 11), (1938, 2, 1), (1939, 1, 21), (1940, 2, 9), (1941, 1, 29),
      (1942, 2, 15), (1943, 2, 5), (1944, 1, 25), (1945, 2, 13), (1946, 2, 2), (1947, 1, 22),
      (1948, 2, 10), (1949, 1, 29), (1950, 2, 17), (1951, 2, 6), (1952, 1, 27), (1953, 2, 14),
      (1954, 2, 3), (1955, 1, 24), (1956, 2, 12), (1957, 2, 1), (1958, 1, 21), (1959, 2, 8),
      (1960, 1, 28), (1961, 2, 15), (1962, 2, 5), (1963, 1, 25), (1964, 2, 13), (1965, 2, 2),
      (1966, 1, 21), (1967, 2, 9), (1968, 1, 30), (1969, 2, 17), (1970, 2, 6), (1971, 1, 27),
      (1972, 2, 15), (1973, 2, 3), (1974, 1, 23), (1975, 2, 11), (1976, 1, 31), (1977, 2, 18),
      (1978, 2, 7), (1979, 1, 27), (1980, 2, 16), (1981, 2, 5), (1982, 1, 25), (1983, 2, 13),
      (1984, 2, 2), (1985, 1, 21), (1986, 2, 9), (1987, 1, 29), (1988, 2, 17), (1989, 2, 6),
      (1990, 1, 27), (1991, 2, 15), (1992, 2, 4), (1993, 1, 23), (1994, 2, 10), (1995, 1, 31),
      (1996, 2, 19), (1997, 2, 7), (1998, 1, 28), (1999, 2, 16), (2000, 2, 5), (2001, 1, 24),
      (2002, 2, 12), (2003, 2, 1), (2004, 1, 22), (2005, 2, 9), (2006, 1, 29), (2007, 2, 18),
      (2008, 2, 7), (2009, 1, 26), (2010, 2, 14), (2011, 2, 3), (2012, 1, 23), (2013, 2, 10),
      (2014, 1, 31), (2015, 2, 19), (2016, 2, 8), (2017, 1, 28), (2018, 2, 16), (2019, 2, 5),
      (2020, 1, 25), (2021, 2, 12), (2022, 2, 1), (2023, 1, 22), (2024, 2, 10), (2025, 1, 29),
      (2026, 2, 17), (2027, 2, 6), (2028, 1, 26), (2029, 2, 13), (2030, 2, 3), (2031, 1, 23),
      (2032, 2, 11), (2033, 1, 31), (2034, 2, 19), (2035, 2, 8), (2036, 1, 28), (2037, 2, 15),
      (2038, 2, 4), (2039, 1, 24), (2040, 2, 12), (2041, 2, 1), (2042, 1, 22), (2043, 2, 10),
      (2044, 1, 30), (2045, 2, 17), (2046, 2, 6), (2047, 1, 26), (2048, 2, 13), (2049, 2, 2),
      (2050, 1, 22)]"

definition getMonthDays :: "int \<Rightarrow> int \<Rightarrow> int" where
  "getMonthDays y m =
     (if m = 1 \<or> m = 3 \<or> m = 5 \<or> m = 7 \<or> m = 8 \<or> m = 10 \<or> m = 12 then 30 else 29)"

definition daysInSolarMonth :: "int \<Rightarrow> int" where
  "daysInSolarMonth solarMonth =
     (if solarMonth = 2 then 28
      else if solarMonth = 4 \<or> solarMonth = 6 \<or> solarMonth = 9 \<or> solarMonth = 11 then 30
      else 31)"

record solar_date =
  sd_year :: int
  sd_month :: int
  sd_day :: int

function carrySolarDays :: "int \<Rightarrow> int \<Rightarrow> int \<Rightarrow> solar_date" where
  "carrySolarDays lunarYear solarMonth solarDay =
     (if solarDay > 28 \<and> solarDay > daysInSolarMonth solarMonth
      then (if solarMonth + 1 > 12
            then carrySolarDays (lunarYear + 1) 1 (solarDay - daysInSolarMonth solarMonth)
            else carrySolarDays lunarYear (solarMonth + 1)
                   (solarDay - daysInSolarMonth solarMonth))
      else \<lparr>sd_year = lunarYear, sd_month = solarMonth, sd_day = solarDay\<rparr>)"
  by pat_completeness auto
termination
  by (relation "measure (\<lambda>(lunarYear, solarMonth, solarDay). nat solarDay)")
    (auto simp: daysInSolarMonth_def)

declare carrySolarDays.simps [simp del]

definition lunarToSolar :: "int \<Rightarrow> int \<Rightarrow> int \<Rightarrow> solar_date" where
  "lunarToSolar lunarYear lunarMonth lunarDay =
     (let (nyMonth, nyDay) = (case map_of lunarNewYear lunarYear of
                                None \<Rightarrow> (1, 21) | Some ny \<Rightarrow> ny);
          solarDay = nyDay + sum_list (map (getMonthDays lunarYear) [1 .. lunarMonth - 1])
                       + (lunarDay - 1)
      in carrySolarDays lunarYear nyMonth solarDay)"

text \<open>
  \<^verbatim>\<open>calcBazi\<close> of part_003 reads the calendar type as well, converts a lunar date and
  stores the calendar type in the result before rendering.
\<close>

datatype outcome_rev = Alert_rev string | Rendered_rev bazi_result string

definition calcBazi_rev ::
  "date_ctor \<Rightarrow> string \<Rightarrow> int option \<Rightarrow> int \<Rightarrow> int \<Rightarrow> int \<Rightarrow> string \<Rightarrow> outcome_rev" where
  "calcBazi_rev newDate calendarType year month day hour gender =
     (case year of
        None \<Rightarrow> Alert_rev ''qing shuru youxiao nianfen (1900-2100)''
      | Some y \<Rightarrow>
          if y = 0 \<or> y < 1900 \<or> y > 2100
          then Alert_rev ''qing shuru youxiao nianfen (1900-2100)''
          else (let converted = (if calendarType = ''lunar'' then lunarToSolar y month day
                                 else \<lparr>sd_year = y, sd_month = month, sd_day = day\<rparr>)
                in Rendered_rev
                     (calcBaziPillars_rev newDate (sd_year converted) (sd_month converted)
                        (sd_day converted) hour gender)
                     calendarType))"

section \<open>The sexagenary cycle\<close>

text \<open>
  A stem name and a branch name form one of the 60 combinations of the cycle when both
  occur in the canonical lists and their positions have the same parity; \<open>in_cycle\<close>
  says the same of a pair of indices.
\<close>

definition sexagenary :: "string \<Rightarrow> string \<Rightarrow> bool" where
  "sexagenary s b =
     (0 \<le> indexOf STEMS s \<and> 0 \<le> indexOf BRANCHES b \<and>
      (indexOf STEMS s - indexOf BRANCHES b) mod 2 = 0)"

definition in_cycle :: "stem_branch \<Rightarrow> bool" where
  "in_cycle sb =
     (0 \<le> stemIdx sb \<and> stemIdx sb < 10 \<and> 0 \<le> branchIdx sb \<and> branchIdx sb < 12 \<and>
      (stemIdx sb - branchIdx sb) mod 2 = 0)"

section \<open>Auxiliary facts\<close>

subsection \<open>The wrapped remainder is the mathematical modulus\<close>

lemma js_wrap:
  assumes "0 < b"
  shows "js_rem (js_rem a b + b) b = a mod b"
proof (cases "0 \<le> a")
  case True
  then have "js_rem a b = a mod b"
    using assms by (cases "a = 0") (simp_all add: js_rem_def)
  moreover have "0 < a mod b + b"
    using assms by (simp add: add_nonneg_pos)
  ultimately show ?thesis
    using assms by (simp add: js_rem_def)
next
  case False
  define r where "r = (- a) mod b"
  have r: "0 \<le> r" "r < b"
    using assms by (simp_all add: r_def)
  have "js_rem a b = - r"
    using False assms by (simp add: js_rem_def r_def)
  moreover have "0 < - r + b"
    using r by simp
  moreover have "(- r + b) mod b = a mod b"
    by (simp add: r_def mod_minus_eq)
  ultimately show ?thesis
    using assms by (simp add: js_rem_def)
qed

lemma js_rem_nonneg:
  assumes "0 \<le> a" "0 < b"
  shows "js_rem a b = a mod b"
  using assms by (cases "a = 0") (simp_all add: js_rem_def)

lemma js_rem_even: "js_rem a 2 = 0 \<longleftrightarrow> even a"
  by (cases "a = 0"; cases "0 < a") (auto simp: js_rem_def sgn_if even_iff_mod_2_eq_zero)

subsection \<open>Month carry and the table of solar terms\<close>

lemma monthDays_le_31:
  assumes "1 \<le> month" "month \<le> 12"
  shows "monthDays leap ! nat (month - 1) \<le> 31"
proof -
  have "\<forall>x \<in> set (monthDays leap). x \<le> 31"
    by (simp add: monthDays_def)
  moreover have "nat (month - 1) < length (monthDays leap)"
    using assms by (simp add: monthDays_def)
  ultimately show ?thesis
    using nth_mem by blast
qed

lemma carryMonths_bounds:
  "1 \<le> month \<Longrightarrow> month \<le> 12 \<Longrightarrow> carryMonths leap day month = (m', d') \<Longrightarrow>
     1 \<le> m' \<and> m' \<le> 12 \<and> d' \<le> 31 \<and> min day 1 \<le> d'"
proof (induction leap day month rule: carryMonths.induct)
  case (1 leap day month)
  show ?case
  proof (cases "day > monthDays leap ! nat (month - 1)")
    case True
    let ?md = "monthDays leap ! nat (month - 1)"
    let ?mo = "if month + 1 > 12 then 1 else month + 1"
    have rec: "carryMonths leap (day - ?md) ?mo = (m', d')"
      using "1.prems" True by (subst (asm) carryMonths.simps) simp
    have rng: "1 \<le> ?mo" "?mo \<le> 12"
      using "1.prems" by auto
    have "1 \<le> m' \<and> m' \<le> 12 \<and> d' \<le> 31 \<and> min (day - ?md) 1 \<le> d'"
      using "1.IH" [OF _ rng rec] "1.prems" True by simp
    moreover have "min (day - ?md) 1 = 1"
      using True by simp
    ultimately show ?thesis by auto
  next
    case False
    then have "carryMonths leap day month = (month, day)"
      by (subst carryMonths.simps) simp
    with "1.prems" False monthDays_le_31 [of month leap] show ?thesis
      by auto
  qed
qed

lemma base_month_range:
  assumes "i < 24"
  shows "1 \<le> fst (base ! i) \<and> fst (base ! i) \<le> 12"
proof -
  have "\<forall>x \<in> set base. 1 \<le> fst x \<and> fst x \<le> 12"
    by (simp add: base_def)
  moreover have "i < length base"
    using assms by (simp add: base_def)
  ultimately show ?thesis
    using nth_mem by blast
qed

lemma getDaysFromNewYear_bounds:
  assumes "i < 24" and "getDaysFromNewYear y i = (m, d, h, mi)"
  shows "1 \<le> m \<and> m \<le> 12 \<and> d \<le> 31"
proof -
  obtain bm bd bh bmi where b: "base ! i = (bm, bd, bh, bmi)"
    by (cases "base ! i") auto
  from base_month_range [OF assms(1)] b have rng: "1 \<le> bm" "bm \<le> 12"
    by simp_all
  show ?thesis
    using assms(2) b
    by (auto simp: getDaysFromNewYear_def Let_def split: prod.splits
          dest!: carryMonths_bounds [OF rng])
qed

lemma solarTermAt_bounds:
  assumes "i < 24"
  shows "st_year (solarTermAt y i) = y \<and> 1 \<le> st_month (solarTermAt y i) \<and>
         st_month (solarTermAt y i) \<le> 12 \<and> st_day (solarTermAt y i) \<le> 31"
proof -
  obtain m d h mi where g: "getDaysFromNewYear y i = (m, d, h, mi)"
    by (cases "getDaysFromNewYear y i") auto
  from getDaysFromNewYear_bounds [OF assms g] have "1 \<le> m" "m \<le> 12" "d \<le> 31"
    by simp_all
  then show ?thesis
    using g by (simp add: solarTermAt_def)
qed

lemma termNames_props: "length termNames = 24" "distinct termNames"
  by (simp_all add: termNames_def)

lemma getSolarTerms_zip:
  "getSolarTerms y = zip termNames (map (solarTermAt y) [0 ..< 24])"
  by (rule nth_equalityI) (simp_all add: getSolarTerms_def termNames_props)

lemma map_of_getSolarTerms:
  assumes "i < 24"
  shows "map_of (getSolarTerms y) (termNames ! i) = Some (solarTermAt y i)"
proof -
  have "map_of (zip termNames (map (solarTermAt y) [0 ..< 24])) (termNames ! i)
          = Some (map (solarTermAt y) [0 ..< 24] ! i)"
    using assms by (intro map_of_zip_nth) (simp_all add: termNames_props)
  then show ?thesis
    using assms by (simp add: getSolarTerms_zip)
qed

lemma lookup_LiChun: "map_of (getSolarTerms y) LiChun = Some (solarTermAt y 2)"
  using map_of_getSolarTerms [of 2 y] by (simp add: termNames_def)

lemma lookup_DaXue: "map_of (getSolarTerms y) DaXue = Some (solarTermAt y 22)"
  using map_of_getSolarTerms [of 22 y] by (simp add: termNames_def)

lemma lookup_DongZhi: "map_of (getSolarTerms y) DongZhi = Some (solarTermAt y 23)"
  using map_of_getSolarTerms [of 23 y] by (simp add: termNames_def)

subsection \<open>The terms of the year 2000\<close>

lemma term_2000_1: "solarTermAt 2000 1 = \<lparr>st_month = 2, st_day = 9, st_hour = 9, st_minute = 0, st_year = 2000\<rparr>"
  by code_simp
lemma term_2000_2: "solarTermAt 2000 2 = \<lparr>st_month = 2, st_day = 7, st_hour = 3, st_minute = 14, st_year = 2000\<rparr>"
  by code_simp
lemma term_2000_22: "solarTermAt 2000 22 = \<lparr>st_month = 12, st_day = 14, st_hour = 1, st_minute = 10, st_year = 2000\<rparr>"
  by code_simp
lemma term_2000_23: "solarTermAt 2000 23 = \<lparr>st_month = 1, st_day = 12, st_hour = 0, st_minute = 28, st_year = 2000\<rparr>"
  by code_simp

lemma termDates_nth:
  assumes "i < 24"
  shows "termDates y ! i = solarTermAt y i"
  using assms by (simp add: termDates_def getSolarTerms_def)

lemma length_termDates: "length (termDates y) = 24"
  by (simp add: termDates_def getSolarTerms_def)

subsection \<open>Lookup of every term by name\<close>

lemma termNames_nth:
  shows "termNames ! 0 = XiaoHan"
    and "termNames ! 1 = DaHan"
    and "termNames ! 2 = LiChun"
    and "termNames ! 3 = YuShui"
    and "termNames ! 4 = JingZhe"
    and "termNames ! 5 = ChunFen"
    and "termNames ! 6 = QingMing"
    and "termNames ! 7 = GuYu"
    and "termNames ! 8 = LiXia"
    and "termNames ! 9 = XiaoMan"
    and "termNames ! 10 = MangZhong"
    and "termNames ! 11 = XiaZhi"
    and "termNames ! 12 = XiaoShu"
    and "termNames ! 13 = DaShu"
    and "termNames ! 14 = LiQiu"
    and "termNames ! 15 = ChuShu"
    and "termNames ! 16 = BaiLu"
    and "termNames ! 17 = QiuFen"
    and "termNames ! 18 = HanLu"
    and "termNames ! 19 = ShuangJiang"
    and "termNames ! 20 = LiDong"
    and "termNames ! 21 = XiaoXue"
    and "termNames ! 22 = DaXue"
    and "termNames ! 23 = DongZhi"
  by (simp_all add: termNames_def)

lemma lookup_terms:
  shows "map_of (getSolarTerms y) XiaoHan = Some (solarTermAt y 0)"
    and "map_of (getSolarTerms y) DaHan = Some (solarTermAt y 1)"
    and "map_of (getSolarTerms y) LiChun = Some (solarTermAt y 2)"
    and "map_of (getSolarTerms y) YuShui = Some (solarTermAt y 3)"
    and "map_of (getSolarTerms y) JingZhe = Some (solarTermAt y 4)"
    and "map_of (getSolarTerms y) ChunFen = Some (solarTermAt y 5)"
    and "map_of (getSolarTerms y) QingMing = Some (solarTermAt y 6)"
    and "map_of (getSolarTerms y) GuYu = Some (solarTermAt y 7)"
    and "map_of (getSolarTerms y) LiXia = Some (solarTermAt y 8)"
    and "map_of (getSolarTerms y) XiaoMan = Some (solarTermAt y 9)"
    and "map_of (getSolarTerms y) MangZhong = Some (solarTermAt y 10)"
    and "map_of (getSolarTerms y) XiaZhi = Some (solarTermAt y 11)"
    and "map_of (getSolarTerms y) XiaoShu = Some (solarTermAt y 12)"
    and "map_of (getSolarTerms y) DaShu = Some (solarTermAt y 13)"
    and "map_of (getSolarTerms y) LiQiu = Some (solarTermAt y 14)"
    and "map_of (getSolarTerms y) ChuShu = Some (solarTermAt y 15)"
    and "map_of (getSolarTerms y) BaiLu = Some (solarTermAt y 16)"
    and "map_of (getSolarTerms y) QiuFen = Some (solarTermAt y 17)"
    and "map_of (getSolarTerms y) HanLu = Some (solarTermAt y 18)"
    and "map_of (getSolarTerms y) ShuangJiang = Some (solarTermAt y 19)"
    and "map_of (getSolarTerms y) LiDong = Some (solarTermAt y 20)"
    and "map_of (getSolarTerms y) XiaoXue = Some (solarTermAt y 21)"
    and "map_of (getSolarTerms y) DaXue = Some (solarTermAt y 22)"
    and "map_of (getSolarTerms y) DongZhi = Some (solarTermAt y 23)"
  unfolding termNames_nth [symmetric] by (rule map_of_getSolarTerms, simp)+

subsection \<open>Evaluated terms and nearest terms\<close>

lemma term_1999_22: "solarTermAt 1999 22 = \<lparr>st_month = 12, st_day = 13, st_hour = 1, st_minute = 10, st_year = 1999\<rparr>"
  by code_simp
lemma term_1999_23: "solarTermAt 1999 23 = \<lparr>st_month = 1, st_day = 12, st_hour = 0, st_minute = 28, st_year = 1999\<rparr>"
  by code_simp
lemma term_2000_0: "solarTermAt 2000 0 = \<lparr>st_month = 1, st_day = 10, st_hour = 15, st_minute = 0, st_year = 2000\<rparr>"
  by code_simp
lemma term_2000_3: "solarTermAt 2000 3 = \<lparr>st_month = 3, st_day = 9, st_hour = 0, st_minute = 29, st_year = 2000\<rparr>"
  by code_simp
lemma term_2000_4: "solarTermAt 2000 4 = \<lparr>st_month = 3, st_day = 10, st_hour = 23, st_minute = 29, st_year = 2000\<rparr>"
  by code_simp

lemma term_2000_1_Suc: "solarTermAt 2000 (Suc 0) = \<lparr>st_month = 2, st_day = 9, st_hour = 9, st_minute = 0, st_year = 2000\<rparr>"
  using term_2000_1 by simp

lemma nearest_2000_01_05:
  "getNearestSolarTerm 2000 1 5 =
     \<lparr>prevTerm = Some DongZhi,
       prevDate = Some \<lparr>st_month = 1, st_day = 12, st_hour = 0, st_minute = 28, st_year = 1999\<rparr>,
       nextTerm = Some XiaoHan,
       nextDate = Some \<lparr>st_month = 1, st_day = 10, st_hour = 15, st_minute = 0, st_year = 2000\<rparr>\<rparr>"
  by (simp add: getNearestSolarTerm_def Let_def termNames_def lookup_terms
        term_1999_22 term_1999_23 term_2000_0)

lemma nearest_2000_02_08:
  "prevTerm (getNearestSolarTerm 2000 2 8) = Some XiaoHan"
  by (simp add: getNearestSolarTerm_def Let_def termNames_def lookup_terms
        term_1999_22 term_1999_23 term_2000_0 term_2000_1_Suc)

lemma nearest_2000_02_20:
  "prevTerm (getNearestSolarTerm 2000 2 20) = Some LiChun"
  by (simp add: getNearestSolarTerm_def Let_def termNames_def lookup_terms
        term_1999_22 term_1999_23 term_2000_0 term_2000_1_Suc term_2000_2 term_2000_3)

lemma term_1964_0: "solarTermAt 1964 0 = \<lparr>st_month = 1, st_day = 1, st_hour = 15, st_minute = 0, st_year = 1964\<rparr>"
  by code_simp

lemma term_1964_1: "solarTermAt 1964 1 = \<lparr>st_month = 1, st_day = 31, st_hour = 9, st_minute = 0, st_year = 1964\<rparr>"
  by code_simp

lemma term_1964_2: "solarTermAt 1964 2 = \<lparr>st_month = 2, st_day = - 1, st_hour = 3, st_minute = 14, st_year = 1964\<rparr>"
  by code_simp

lemma term_1964_3: "solarTermAt 1964 3 = \<lparr>st_month = 3, st_day = 1, st_hour = 0, st_minute = 29, st_year = 1964\<rparr>"
  by code_simp

lemma term_1964_4: "solarTermAt 1964 4 = \<lparr>st_month = 3, st_day = 1, st_hour = 23, st_minute = 29, st_year = 1964\<rparr>"
  by code_simp

lemma term_1964_5: "solarTermAt 1964 5 = \<lparr>st_month = 3, st_day = 31, st_hour = 23, st_minute = 34, st_year = 1964\<rparr>"
  by code_simp

lemma term_1964_6: "solarTermAt 1964 6 = \<lparr>st_month = 4, st_day = 0, st_hour = 19, st_minute = 42, st_year = 1964\<rparr>"
  by code_simp

lemma term_1963_22: "solarTermAt 1963 22 = \<lparr>st_month = 12, st_day = 5, st_hour = 1, st_minute = 10, st_year = 1963\<rparr>"
  by code_simp

lemma term_1963_23: "solarTermAt 1963 23 = \<lparr>st_month = 1, st_day = 3, st_hour = 0, st_minute = 28, st_year = 1963\<rparr>"
  by code_simp

lemma term_1964_1_Suc: "solarTermAt 1964 (Suc 0) = \<lparr>st_month = 1, st_day = 31, st_hour = 9, st_minute = 0, st_year = 1964\<rparr>"
  using term_1964_1 by simp

lemma nearest_1964_03_31:
  "prevTerm (getNearestSolarTerm 1964 3 31) = Some ChunFen"
  by (simp add: getNearestSolarTerm_def Let_def termNames_def lookup_terms
        term_1963_22 term_1963_23 term_1964_0 term_1964_1_Suc term_1964_2 term_1964_3
        term_1964_4 term_1964_5 term_1964_6)

lemma year_2000_02_05:
  "getYearFromSolarTerm 2000 2 5 =
     \<lparr>yearStem = ''ji'', yearBranch = ''mao'', yearStemIdx = 5, yearBranchIdx = 3,
       zodiac = ''tu'', actualYear = 1999\<rparr>"
  unfolding getYearFromSolarTerm_def lookup_terms term_2000_2 by code_simp

lemma year_1964_01_31:
  "getYearFromSolarTerm 1964 1 31 =
     \<lparr>yearStem = ''gui'', yearBranch = ''mao'', yearStemIdx = 9, yearBranchIdx = 3,
       zodiac = ''tu'', actualYear = 1963\<rparr>"
  unfolding getYearFromSolarTerm_def lookup_terms term_1964_2 by code_simp

lemma year_simplified_2000:
  "getYearSimplified 2000 =
     \<lparr>yearStem = ''geng'', yearBranch = ''chen'', yearStemIdx = 6, yearBranchIdx = 4,
       zodiac = ''long'', actualYear = 2000\<rparr>"
  by code_simp

lemma base_lichun: "base ! 2 = (2, 4, 3, 14)"
  by (simp add: base_def)

lemma month_2000_02_20:
  "getMonthFromSolarTerm 2000 2 20 0 0 =
     \<lparr>monthStem = ''wu'', monthBranch = ''chen'', monthStemIdx = 4, monthBranchIdx = 2,
       termName = Some LiChun\<rparr>"
  unfolding getMonthFromSolarTerm_def nearest_2000_02_20 by code_simp

lemma month_rev_2000_02_20:
  "getMonthFromSolarTerm_rev 2000 2 20 0 0 =
     \<lparr>monthStem = ''wu'', monthBranch = ''yin'', monthStemIdx = 4, monthBranchIdx = 0,
       termName = Some LiChun\<rparr>"
  unfolding getMonthFromSolarTerm_rev_def nearest_2000_02_20 by code_simp

lemma month_2000_02_08:
  "getMonthFromSolarTerm 2000 2 8 0 0 =
     \<lparr>monthStem = ''ji'', monthBranch = ''mao'', monthStemIdx = 5, monthBranchIdx = 1,
       termName = Some XiaoHan\<rparr>"
  unfolding getMonthFromSolarTerm_def nearest_2000_02_08 by code_simp

lemma month_1964_03_31:
  "getMonthFromSolarTerm 1964 3 31 0 0 =
     \<lparr>monthStem = ''bing'', monthBranch = ''chen'', monthStemIdx = 2, monthBranchIdx = 2,
       termName = Some ChunFen\<rparr>"
  unfolding getMonthFromSolarTerm_def nearest_1964_03_31 by code_simp

lemma terms_2000:
  "getSolarTerms 2000 =
     [(XiaoHan, \<lparr>st_month = 1, st_day = 10, st_hour = 15, st_minute = 0, st_year = 2000\<rparr>),
      (DaHan, \<lparr>st_month = 2, st_day = 9, st_hour = 9, st_minute = 0, st_year = 2000\<rparr>),
      (LiChun, \<lparr>st_month = 2, st_day = 7, st_hour = 3, st_minute = 14, st_year = 2000\<rparr>),
      (YuShui, \<lparr>st_month = 3, st_day = 9, st_hour = 0, st_minute = 29, st_year = 2000\<rparr>),
      (JingZhe, \<lparr>st_month = 3, st_day = 10, st_hour = 23, st_minute = 29, st_year = 2000\<rparr>),
      (ChunFen, \<lparr>st_month = 4, st_day = 9, st_hour = 23, st_minute = 34, st_year = 2000\<rparr>),
      (QingMing, \<lparr>st_month = 4, st_day = 9, st_hour = 19, st_minute = 42, st_year = 2000\<rparr>),
      (GuYu, \<lparr>st_month = 5, st_day = 10, st_hour = 2, st_minute = 20, st_year = 2000\<rparr>),
      (LiXia, \<lparr>st_month = 5, st_day = 11, st_hour = 15, st_minute = 32, st_year = 2000\<rparr>),
      (XiaoMan, \<lparr>st_month = 6, st_day = 11, st_hour = 3, st_minute = 43, st_year = 2000\<rparr>),
      (MangZhong, \<lparr>st_month = 6, st_day = 10, st_hour = 12, st_minute = 32, st_year = 2000\<rparr>),
      (XiaZhi, \<lparr>st_month = 7, st_day = 12, st_hour = 7, st_minute = 0, st_year = 2000\<rparr>),
      (XiaoShu, \<lparr>st_month = 7, st_day = 14, st_hour = 5, st_minute = 5, st_year = 2000\<rparr>),
      (DaShu, \<lparr>st_month = 8, st_day = 14, st_hour = 22, st_minute = 30, st_year = 2000\<rparr>),
      (LiQiu, \<lparr>st_month = 8, st_day = 14, st_hour = 15, st_minute = 39, st_year = 2000\<rparr>),
      (ChuShu, \<lparr>st_month = 9, st_day = 15, st_hour = 4, st_minute = 34, st_year = 2000\<rparr>),
      (BaiLu, \<lparr>st_month = 9, st_day = 15, st_hour = 12, st_minute = 8, st_year = 2000\<rparr>),
      (QiuFen, \<lparr>st_month = 10, st_day = 16, st_hour = 3, st_minute = 55, st_year = 2000\<rparr>),
      (HanLu, \<lparr>st_month = 10, st_day = 16, st_hour = 9, st_minute = 21, st_year = 2000\<rparr>),
      (ShuangJiang, \<lparr>st_month = 11, st_day = 15, st_hour = 4, st_minute = 15, st_year = 2000\<rparr>),
      (LiDong, \<lparr>st_month = 11, st_day = 14, st_hour = 2, st_minute = 20, st_year = 2000\<rparr>),
      (XiaoXue, \<lparr>st_month = 12, st_day = 14, st_hour = 4, st_minute = 36, st_year = 2000\<rparr>),
      (DaXue, \<lparr>st_month = 12, st_day = 14, st_hour = 1, st_minute = 10, st_year = 2000\<rparr>),
      (DongZhi, \<lparr>st_month = 1, st_day = 12, st_hour = 0, st_minute = 28, st_year = 2000\<rparr>)]"
  by code_simp

lemma term_2001_0: "solarTermAt 2001 0 = \<lparr>st_month = 1, st_day = 10, st_hour = 15, st_minute = 0, st_year = 2001\<rparr>"
  by code_simp

lemma pillarNames_calcBaziPillars:
  "pillarNames (calcBaziPillars newDate year month day hour gender) =
     [(yearStem (getYearFromSolarTerm year month day),
       yearBranch (getYearFromSolarTerm year month day)),
      (monthStem (getMonthFromSolarTerm year month day 0 0),
       monthBranch (getMonthFromSolarTerm year month day 0 0)),
      (js_nth STEMS (fst (dayPillar_bazi year month day)),
       js_nth BRANCHES (snd (dayPillar_bazi year month day))),
      (js_nth STEMS
         (js_rem (hourStemBases ! nat (js_rem (fst (dayPillar_bazi year month day)) 5) + hour) 10),
       js_nth BRANCHES hour)]"
  by (simp add: pillarNames_def calcBaziPillars_def dayPillar_bazi_def Let_def)

lemma nearest_2000_13_01:
  "getNearestSolarTerm 2000 13 1 =
     \<lparr>prevTerm = Some DongZhi,
       prevDate = Some \<lparr>st_month = 1, st_day = 12, st_hour = 0, st_minute = 28, st_year = 2000\<rparr>,
       nextTerm = Some XiaoHan,
       nextDate = Some \<lparr>st_month = 1, st_day = 10, st_hour = 15, st_minute = 0, st_year = 2001\<rparr>\<rparr>"
  unfolding getNearestSolarTerm_def terms_2000
  by (simp add: Let_def termNames_def lookup_terms term_1999_22 term_1999_23 term_2001_0)

lemma month_2000_13_01:
  "getMonthFromSolarTerm 2000 13 1 0 0 =
     \<lparr>monthStem = ''wu'', monthBranch = ''yin'', monthStemIdx = 4, monthBranchIdx = 0,
       termName = Some DongZhi\<rparr>"
  unfolding getMonthFromSolarTerm_def nearest_2000_13_01 by code_simp

lemma year_2000_13_01:
  "getYearFromSolarTerm 2000 13 1 =
     \<lparr>yearStem = ''geng'', yearBranch = ''chen'', yearStemIdx = 6, yearBranchIdx = 4,
       zodiac = ''long'', actualYear = 2000\<rparr>"
  unfolding getYearFromSolarTerm_def lookup_terms term_2000_2 by code_simp

lemma day_2000_13_01: "dayPillar_bazi 2000 13 1 = (9, 11)"
  by code_simp

lemma chart_month_13:
  "pillarNames (calcBaziPillars utcDate 2000 13 1 0 ''m'') =
     [(''geng'', ''chen''), (''wu'', ''yin''), (''gui'', ''hai''), (''ren'', ''zi'')]"
  unfolding pillarNames_calcBaziPillars month_2000_13_01 year_2000_13_01 day_2000_13_01
  by code_simp

subsection \<open>Day pillar at the reference date\<close>

lemma day_bazi_ref: "dayPillar_bazi 2000 1 7 = (9, 11)"
  by code_simp

lemma day_jieqi_ref: "getDayStemBranch 2000 1 7 = \<lparr>stemIdx = 0, branchIdx = 0\<rparr>"
  by code_simp

lemma day_int_ref: "dayPillar_int 2000 1 7 = (0, 0)"
  by code_simp

lemma julian_ref: "getJulianDay 2000 1 7 = 4903101 / 2"
  by code_simp

subsection \<open>The nearest terms are always found\<close>

lemma scanYearTerms_keeps_prev:
  assumes "prevTerm s \<noteq> None" "prevDate s \<noteq> None"
  shows "prevTerm (scanYearTerms dn terms ts s) \<noteq> None \<and>
         prevDate (scanYearTerms dn terms ts s) \<noteq> None"
  using assms by (induction ts arbitrary: s) (auto simp: Let_def split: option.splits)

lemma scanYearTerms_next_paired:
  assumes "nextTerm s = None \<longleftrightarrow> nextDate s = None"
  shows "nextTerm (scanYearTerms dn terms ts s) = None \<longleftrightarrow>
         nextDate (scanYearTerms dn terms ts s) = None"
  using assms by (induction ts arbitrary: s) (auto simp: Let_def split: option.splits)

lemma scanFirstTerms_sets_next:
  "nextTerm (scanFirstTerms (getSolarTerms y) [XiaoHan, DaHan] s) \<noteq> None \<and>
   nextDate (scanFirstTerms (getSolarTerms y) [XiaoHan, DaHan] s) \<noteq> None \<and>
   prevTerm (scanFirstTerms (getSolarTerms y) [XiaoHan, DaHan] s) = prevTerm s \<and>
   prevDate (scanFirstTerms (getSolarTerms y) [XiaoHan, DaHan] s) = prevDate s"
  by (simp add: lookup_terms)

lemma scanLastTerms_sets_prev:
  fixes year month day :: int
  assumes "1 \<le> month" "1 \<le> day"
  defines "s1 \<equiv> scanLastTerms year (year * 10000 + month * 100 + day)
                    (getSolarTerms (year - 1)) [DaXue, DongZhi]
                    \<lparr>prevTerm = None, prevDate = None, nextTerm = None, nextDate = None\<rparr>"
  shows "prevTerm s1 \<noteq> None \<and> prevDate s1 \<noteq> None \<and> nextTerm s1 = None \<and> nextDate s1 = None"
proof -
  let ?t = "solarTermAt (year - 1) 22"
  have b: "st_year ?t = year - 1" "st_month ?t \<le> 12" "st_day ?t \<le> 31"
    using solarTermAt_bounds [of 22 "year - 1"] by simp_all
  have "(if st_year ?t \<noteq> 0 then st_year ?t else year - 1) * 10000 + st_month ?t * 100 + st_day ?t
          \<le> year * 10000 + month * 100 + day"
    using b assms(1,2) by auto
  then show ?thesis
    unfolding s1_def by (simp add: lookup_terms Let_def)
qed

lemma getNearestSolarTerm_defined:
  assumes "1 \<le> month" "1 \<le> day"
  shows "prevTerm (getNearestSolarTerm year month day) \<noteq> None \<and>
         prevDate (getNearestSolarTerm year month day) \<noteq> None \<and>
         nextTerm (getNearestSolarTerm year month day) \<noteq> None \<and>
         nextDate (getNearestSolarTerm year month day) \<noteq> None"
proof -
  define dn where "dn = year * 10000 + month * 100 + day"
  define s1 where "s1 = scanLastTerms year dn (getSolarTerms (year - 1)) [DaXue, DongZhi]
      \<lparr>prevTerm = None, prevDate = None, nextTerm = None, nextDate = None\<rparr>"
  define s2 where "s2 = scanYearTerms dn (getSolarTerms year) termNames s1"
  have s1: "prevTerm s1 \<noteq> None" "prevDate s1 \<noteq> None" "nextTerm s1 = None" "nextDate s1 = None"
    using scanLastTerms_sets_prev [OF assms, of year] by (simp_all add: s1_def dn_def)
  have p2: "prevTerm s2 \<noteq> None" "prevDate s2 \<noteq> None"
    using scanYearTerms_keeps_prev [OF s1(1,2)] by (simp_all add: s2_def)
  have n2: "nextTerm s2 = None \<longleftrightarrow> nextDate s2 = None"
    unfolding s2_def by (rule scanYearTerms_next_paired) (simp add: s1)
  have g: "getNearestSolarTerm year month day =
      (if nextTerm s2 = None
       then scanFirstTerms (getSolarTerms (year + 1)) [XiaoHan, DaHan] s2 else s2)"
    by (simp add: getNearestSolarTerm_def Let_def s2_def s1_def dn_def)
  show ?thesis
  proof (cases "nextTerm s2 = None")
    case True
    then show ?thesis
      using g p2 scanFirstTerms_sets_next [of "year + 1" s2] by simp
  next
    case False
    then have "getNearestSolarTerm year month day = s2"
      by (simp only: g if_False)
    moreover from False n2 have "nextDate s2 \<noteq> None"
      by simp
    ultimately show ?thesis
      using p2 False by simp
  qed
qed

lemma clamp_floor:
  fixes a :: rat
  shows "1 \<le> \<lfloor>if (if a < 1 then 1 else a) > 20 then 20 else (if a < 1 then 1 else a)\<rfloor> \<and>
         \<lfloor>if (if a < 1 then 1 else a) > 20 then 20 else (if a < 1 then 1 else a)\<rfloor> \<le> 20"
proof -
  define c where "c = (if (if a < 1 then 1 else a) > 20 then 20 else (if a < 1 then 1 else a))"
  have "1 \<le> c" "c \<le> 20"
    by (simp_all add: c_def)
  then have "1 \<le> \<lfloor>c\<rfloor>" "\<lfloor>c\<rfloor> \<le> 20"
    by (simp_all add: floor_le_iff le_floor_iff)
  then show ?thesis
    by (simp add: c_def)
qed

subsection \<open>Positions of names in the canonical lists\<close>

lemma indexOf_STEMS:
  assumes "0 \<le> i" "i < 10"
  shows "indexOf STEMS (js_nth STEMS i) = i"
proof -
  from assms have "i = 0 \<or> i = 1 \<or> i = 2 \<or> i = 3 \<or> i = 4 \<or> i = 5 \<or> i = 6 \<or> i = 7
      \<or> i = 8 \<or> i = 9"
    by arith
  then show ?thesis
    by (elim disjE) (simp_all add: STEMS_def js_nth_def)
qed

lemma indexOf_BRANCHES:
  assumes "0 \<le> i" "i < 12"
  shows "indexOf BRANCHES (js_nth BRANCHES i) = i"
proof -
  from assms have "i = 0 \<or> i = 1 \<or> i = 2 \<or> i = 3 \<or> i = 4 \<or> i = 5 \<or> i = 6 \<or> i = 7
      \<or> i = 8 \<or> i = 9 \<or> i = 10 \<or> i = 11"
    by arith
  then show ?thesis
    by (elim disjE) (simp_all add: BRANCHES_def js_nth_def)
qed

lemma indexOf_monthBranchNames:
  assumes "0 \<le> i" "i < 12"
  shows "indexOf BRANCHES (js_nth monthBranchNames i) = (i + 2) mod 12"
proof -
  from assms have "i = 0 \<or> i = 1 \<or> i = 2 \<or> i = 3 \<or> i = 4 \<or> i = 5 \<or> i = 6 \<or> i = 7
      \<or> i = 8 \<or> i = 9 \<or> i = 10 \<or> i = 11"
    by arith
  then show ?thesis
    by (elim disjE) (simp_all add: BRANCHES_def monthBranchNames_def js_nth_def)
qed

lemma monthIndexOf_range:
  assumes "prev \<noteq> None"
  shows "0 \<le> monthIndexOf prev month \<and> monthIndexOf prev month \<le> 11"
proof -
  from assms obtain t where "prev = Some t"
    by auto
  then show ?thesis
    by (cases t) (simp_all add: monthIndexOf_def)
qed

lemma monthStemBase_even:
  assumes "0 \<le> i" "i < 10"
  shows "even ([2, 4, 6, 8, 0, 2, 4, 6, 8, 0] ! nat i :: int) \<and>
         0 \<le> ([2, 4, 6, 8, 0, 2, 4, 6, 8, 0] ! nat i :: int)"
proof -
  have "\<forall>x \<in> set [2, 4, 6, 8, 0, 2, 4, 6, 8, 0 :: int]. even x \<and> 0 \<le> x"
    by simp
  moreover have "nat i < length [2, 4, 6, 8, 0, 2, 4, 6, 8, 0 :: int]"
    using assms by simp
  ultimately show ?thesis
    using nth_mem by blast
qed

lemma fiveBase_even:
  assumes "0 \<le> i" "i < 5" "\<forall>x \<in> set (bs :: int list). even x \<and> 0 \<le> x" "length bs = 5"
  shows "even (bs ! nat i) \<and> 0 \<le> bs ! nat i"
proof -
  have "nat i < length bs"
    using assms by simp
  then show ?thesis
    using assms(3) nth_mem by blast
qed

subsection \<open>Parity of the pillars\<close>

lemma even_mod_10: "even (a mod 10) \<longleftrightarrow> even (a :: int)"
  by (simp add: dvd_mod_iff)

lemma even_mod_12: "even (a mod 12) \<longleftrightarrow> even (a :: int)"
  by (simp add: dvd_mod_iff)

lemma parity_10_12: "(a mod 10 - c mod 12) mod 2 = 0 \<longleftrightarrow> even (a - c)" for a c :: int
  by (simp add: even_mod_10 even_mod_12 flip: even_iff_mod_2_eq_zero)

lemma parity_10: "(a mod 10 - c) mod 2 = 0 \<longleftrightarrow> even (a - c)" for a c :: int
  by (simp add: even_mod_10 flip: even_iff_mod_2_eq_zero)

lemma parity_12: "(a - c mod 12) mod 2 = 0 \<longleftrightarrow> even (a - c)" for a c :: int
  by (simp add: even_mod_12 flip: even_iff_mod_2_eq_zero)

lemma sexagenaryI:
  assumes "0 \<le> i" "i < 10" "0 \<le> j" "j < 12" "(i - j) mod 2 = 0"
  shows "sexagenary (js_nth STEMS i) (js_nth BRANCHES j)"
  using assms by (simp add: sexagenary_def indexOf_STEMS indexOf_BRANCHES)

lemma sexagenary_monthI:
  assumes "0 \<le> i" "i < 10" "0 \<le> k" "k < 12" "(i - k) mod 2 = 0"
  shows "sexagenary (js_nth STEMS i) (js_nth monthBranchNames k)"
proof -
  have "(i - (k + 2) mod 12) mod 2 = 0"
    using assms(5) by (simp add: even_mod_12 flip: even_iff_mod_2_eq_zero)
  moreover have "0 \<le> (k + 2) mod 12"
    by simp
  ultimately show ?thesis
    using assms by (simp add: sexagenary_def indexOf_STEMS indexOf_monthBranchNames)
qed

lemma year_pillar_sexagenary:
  "sexagenary (yearStem (getYearFromSolarTerm year month day))
              (yearBranch (getYearFromSolarTerm year month day))"
proof -
  obtain ay where "getYearFromSolarTerm year month day = yearInfoOf ay"
    by (simp add: getYearFromSolarTerm_def lookup_terms Let_def)
  moreover have "sexagenary (yearStem (yearInfoOf ay)) (yearBranch (yearInfoOf ay))"
  proof -
    have "((ay - 4) mod 10 - (ay - 4) mod 12) mod 2 = 0"
      by (simp add: parity_10_12)
    then have "sexagenary (js_nth STEMS ((ay - 4) mod 10)) (js_nth BRANCHES ((ay - 4) mod 12))"
      by (intro sexagenaryI) simp_all
    then show ?thesis
      by (simp add: yearInfoOf_def Let_def js_wrap)
  qed
  ultimately show ?thesis
    by simp
qed

lemma month_pillar_sexagenary:
  assumes "1 \<le> month" "1 \<le> day"
  shows "sexagenary (monthStem (getMonthFromSolarTerm year month day 0 0))
                    (monthBranch (getMonthFromSolarTerm year month day 0 0))"
proof -
  define mi where "mi = monthIndexOf (prevTerm (getNearestSolarTerm year month day)) month"
  define ys where "ys = (year - 4) mod 10"
  define b where "b = ([2, 4, 6, 8, 0, 2, 4, 6, 8, 0] ! nat ys :: int)"
  have mi: "0 \<le> mi" "mi \<le> 11"
    using monthIndexOf_range [of "prevTerm (getNearestSolarTerm year month day)" month]
      getNearestSolarTerm_defined [OF assms, of year]
    by (simp_all add: mi_def)
  have ys: "0 \<le> ys" "ys < 10"
    by (simp_all add: ys_def)
  have b: "even b" "0 \<le> b"
    using monthStemBase_even [OF ys] by (simp_all add: b_def)
  have s: "js_rem (b + mi) 10 = (b + mi) mod 10"
    using b mi by (intro js_rem_nonneg) simp_all
  have k: "js_rem (mi + 2) 12 = (mi + 2) mod 12"
    using mi by (intro js_rem_nonneg) simp_all
  have par: "((b + mi) mod 10 - (mi + 2) mod 12) mod 2 = 0"
    using b(1) by (simp add: parity_10_12)
  have "sexagenary (js_nth STEMS ((b + mi) mod 10)) (js_nth monthBranchNames ((mi + 2) mod 12))"
    using par by (intro sexagenary_monthI) simp_all
  then show ?thesis
    by (simp add: getMonthFromSolarTerm_def Let_def js_wrap s k
          flip: mi_def ys_def b_def)
qed

lemma dayPillar_bazi_mod:
  "dayPillar_bazi year month day =
     ((\<lfloor>getJulianDay year month day\<rfloor> + 49) mod 10, (\<lfloor>getJulianDay year month day\<rfloor> + 1) mod 12)"
  by (simp add: dayPillar_bazi_def dayStemIdxOf_def dayBranchIdxOf_def Let_def js_wrap)

lemma day_pillar_sexagenary:
  "sexagenary (js_nth STEMS (fst (dayPillar_bazi year month day)))
              (js_nth BRANCHES (snd (dayPillar_bazi year month day)))"
proof -
  define jd where "jd = \<lfloor>getJulianDay year month day\<rfloor>"
  have "((jd + 49) mod 10 - (jd + 1) mod 12) mod 2 = 0"
    by (simp add: parity_10_12)
  then have "sexagenary (js_nth STEMS ((jd + 49) mod 10)) (js_nth BRANCHES ((jd + 1) mod 12))"
    by (intro sexagenaryI) simp_all
  then show ?thesis
    by (simp add: dayPillar_bazi_mod jd_def)
qed

lemma hourBase_even:
  assumes "0 \<le> ds" "ds < 10"
  shows "even (hourStemBases ! nat (js_rem ds 5)) \<and> 0 \<le> hourStemBases ! nat (js_rem ds 5)"
proof -
  have "js_rem ds 5 = ds mod 5"
    using assms by (intro js_rem_nonneg) simp_all
  moreover have "0 \<le> ds mod 5" "ds mod 5 < 5"
    by simp_all
  ultimately show ?thesis
    using fiveBase_even [of "ds mod 5" hourStemBases] by (simp add: hourStemBases_def)
qed

lemma hour_pillar_sexagenary:
  assumes "0 \<le> hour" "hour \<le> 11" "0 \<le> ds" "ds < 10"
  shows "sexagenary (js_nth STEMS (js_rem (hourStemBases ! nat (js_rem ds 5) + hour) 10))
                    (js_nth BRANCHES hour)"
proof -
  define hb where "hb = hourStemBases ! nat (js_rem ds 5)"
  have hb: "even hb" "0 \<le> hb"
    using hourBase_even [OF assms(3,4)] by (simp_all add: hb_def)
  have s: "js_rem (hb + hour) 10 = (hb + hour) mod 10"
    using hb assms by (intro js_rem_nonneg) simp_all
  have "((hb + hour) mod 10 - hour) mod 2 = 0"
    using hb(1) by (simp add: parity_10)
  then have "sexagenary (js_nth STEMS ((hb + hour) mod 10)) (js_nth BRANCHES hour)"
    using assms by (intro sexagenaryI) simp_all
  then show ?thesis
    by (simp add: s flip: hb_def)
qed

lemma pillars_bazi_sexagenary:
  assumes "1 \<le> month" "1 \<le> day" "0 \<le> hour" "hour \<le> 11"
  shows "\<forall>(s, b) \<in> set (pillarNames (calcBaziPillars newDate year month day hour gender)).
           sexagenary s b"
proof -
  have d: "0 \<le> fst (dayPillar_bazi year month day)" "fst (dayPillar_bazi year month day) < 10"
    by (simp_all add: dayPillar_bazi_mod)
  show ?thesis
    unfolding pillarNames_calcBaziPillars
    using year_pillar_sexagenary [of year month day]
      month_pillar_sexagenary [OF assms(1,2), of year]
      day_pillar_sexagenary [of year month day]
      hour_pillar_sexagenary [OF assms(3,4) d]
    by simp
qed

lemma scanJieqi_bound:
  "scanJieqi month day hour ts i lastIdx = lastIdx \<or>
   (i \<le> scanJieqi month day hour ts i lastIdx \<and>
    scanJieqi month day hour ts i lastIdx < i + length ts)"
proof (induction ts arbitrary: i lastIdx)
  case Nil
  then show ?case by simp
next
  case (Cons t ts)
  show ?case
  proof (cases "isAfter month day hour t")
    case True
    with Cons.IH [of "i + 1" i] show ?thesis
      by auto
  next
    case False
    then show ?thesis by simp
  qed
qed

lemma length_getJieqi: "length (getJieqi calcSolarTerm year) = 12"
  by (simp add: getJieqi_def)

lemma getMonthBranchIdx_range:
  "0 \<le> getMonthBranchIdx calcSolarTerm year month day hour \<and>
   getMonthBranchIdx calcSolarTerm year month day hour < 12"
proof -
  define k where "k = scanJieqi month day hour (getJieqi calcSolarTerm year) 0 0"
  have "k < 12"
    using scanJieqi_bound [of month day hour "getJieqi calcSolarTerm year" 0 0]
    by (auto simp: k_def length_getJieqi)
  then have k: "k < length JIEQI_BRANCH"
    by (simp add: JIEQI_BRANCH_def)
  have "(11 :: nat) < length JIEQI_BRANCH"
    by (simp add: JIEQI_BRANCH_def)
  moreover have all: "\<forall>x \<in> set JIEQI_BRANCH. 0 \<le> x \<and> x < 12"
    by (simp add: JIEQI_BRANCH_def)
  ultimately have "0 \<le> JIEQI_BRANCH ! 11 \<and> JIEQI_BRANCH ! 11 < 12"
    using nth_mem by blast
  moreover have "0 \<le> JIEQI_BRANCH ! k \<and> JIEQI_BRANCH ! k < 12"
    using k all nth_mem by blast
  ultimately show ?thesis
    by (simp add: getMonthBranchIdx_def Let_def k_def)
qed

lemma year_jieqi_in_cycle:
  "in_cycle (getYearStemBranch calcSolarTerm year month day hourBranchIdx)"
  by (simp add: getYearStemBranch_def Let_def js_wrap in_cycle_def parity_10_12)

lemma month_jieqi_in_cycle:
  assumes "0 \<le> ys" "ys < 10"
  shows "in_cycle (getMonthStemBranch calcSolarTerm ys year month day hourBranchIdx)"
proof -
  define b where "b = getMonthBranchIdx calcSolarTerm year month day hourBranchIdx"
  define base5 where "base5 = ([2, 4, 6, 8, 0] ! nat (js_rem ys 5) :: int)"
  have b: "0 \<le> b" "b < 12"
    using getMonthBranchIdx_range [of calcSolarTerm year month day hourBranchIdx]
    by (simp_all add: b_def)
  have "js_rem ys 5 = ys mod 5"
    using assms by (intro js_rem_nonneg) simp_all
  moreover have "0 \<le> ys mod 5" "ys mod 5 < 5"
    by simp_all
  ultimately have base5: "even base5" "0 \<le> base5"
    using fiveBase_even [of "ys mod 5" "[2, 4, 6, 8, 0]"] by (simp_all add: base5_def)
  have off: "js_rem (10 + b) 12 = (10 + b) mod 12"
    using b by (intro js_rem_nonneg) simp_all
  have st: "js_rem (base5 + (10 + b) mod 12) 10 = (base5 + (10 + b) mod 12) mod 10"
    using base5 by (intro js_rem_nonneg) simp_all
  have "((base5 + (10 + b) mod 12) mod 10 - b) mod 2 = 0"
    using base5(1) by (simp add: parity_10 even_mod_12)
  then show ?thesis
    using b by (simp add: getMonthStemBranch_def Let_def in_cycle_def off st
          flip: b_def base5_def)
qed

lemma day_jieqi_in_cycle: "in_cycle (getDayStemBranch year month day)"
  by (simp add: getDayStemBranch_def Let_def js_wrap in_cycle_def parity_10_12
        split: prod.splits)

lemma hour_jieqi_in_cycle:
  assumes "0 \<le> hour" "hour \<le> 11" "0 \<le> ds" "ds < 10"
  shows "in_cycle (getHourStemBranch ds hour)"
proof -
  define base5 where "base5 = ([0, 2, 4, 6, 8] ! nat (js_rem ds 5) :: int)"
  have "js_rem ds 5 = ds mod 5"
    using assms by (intro js_rem_nonneg) simp_all
  moreover have "0 \<le> ds mod 5" "ds mod 5 < 5"
    by simp_all
  ultimately have base5: "even base5" "0 \<le> base5"
    using fiveBase_even [of "ds mod 5" "[0, 2, 4, 6, 8]"] by (simp_all add: base5_def)
  have st: "js_rem (base5 + hour) 10 = (base5 + hour) mod 10"
    using base5 assms by (intro js_rem_nonneg) simp_all
  have "((base5 + hour) mod 10 - hour) mod 2 = 0"
    using base5(1) by (simp add: parity_10)
  then show ?thesis
    using assms by (simp add: getHourStemBranch_def Let_def in_cycle_def st flip: base5_def)
qed

lemma in_cycle_sexagenary:
  assumes "in_cycle sb"
  shows "sexagenary (js_nth STEMS (stemIdx sb)) (js_nth BRANCHES (branchIdx sb))"
  using assms by (intro sexagenaryI) (simp_all add: in_cycle_def)

lemma pillars_jieqi_in_cycle:
  assumes "0 \<le> hour" "hour \<le> 11"
  shows "\<forall>p \<in> set (calcBaziPillars_jieqi calcSolarTerm year month day hour gender).
           in_cycle \<lparr>stemIdx = pi_stemIdx p, branchIdx = pi_branchIdx p\<rparr> \<and>
           sexagenary (pi_stem p) (pi_branch p)"
proof -
  define yr where "yr = getYearStemBranch calcSolarTerm year month day (Some hour)"
  define mo where "mo = getMonthStemBranch calcSolarTerm (stemIdx yr) year month day (Some hour)"
  define da where "da = getDayStemBranch year month day"
  define hr where "hr = getHourStemBranch (stemIdx da) hour"
  have yr: "in_cycle yr"
    unfolding yr_def by (rule year_jieqi_in_cycle)
  then have mo: "in_cycle mo"
    unfolding mo_def by (intro month_jieqi_in_cycle) (simp_all add: in_cycle_def)
  have da: "in_cycle da"
    unfolding da_def by (rule day_jieqi_in_cycle)
  then have hr: "in_cycle hr"
    unfolding hr_def using assms by (intro hour_jieqi_in_cycle) (simp_all add: in_cycle_def)
  have eq: "\<lparr>stemIdx = stemIdx sb, branchIdx = branchIdx sb\<rparr> = sb" for sb :: stem_branch
    by simp
  show ?thesis
    using yr mo da hr in_cycle_sexagenary [OF yr] in_cycle_sexagenary [OF mo]
      in_cycle_sexagenary [OF da] in_cycle_sexagenary [OF hr]
    by (simp add: calcBaziPillars_jieqi_def Let_def eq flip: yr_def mo_def da_def hr_def)
qed

lemma pillarNames_calcBaziPillars_rev:
  "pillarNames (calcBaziPillars_rev newDate year month day hour gender) =
     [(yearStem (getYearFromSolarTerm year month day),
       yearBranch (getYearFromSolarTerm year month day)),
      (monthStem (getMonthFromSolarTerm_rev
                    (actualYear (getYearFromSolarTerm year month day)) month day 0 0),
       monthBranch (getMonthFromSolarTerm_rev
                    (actualYear (getYearFromSolarTerm year month day)) month day 0 0)),
      (js_nth STEMS (fst (dayPillar_int year month day)),
       js_nth BRANCHES (snd (dayPillar_int year month day))),
      (js_nth STEMS
         (js_rem (hourStemBases ! nat (js_rem (fst (dayPillar_int year month day)) 5) + hour) 10),
       js_nth BRANCHES hour)]"
  by (simp add: pillarNames_def calcBaziPillars_rev_def dayPillar_int_def Let_def)

lemma month_rev_sexagenary:
  assumes "1 \<le> month" "1 \<le> day"
  shows "sexagenary (monthStem (getMonthFromSolarTerm_rev year month day 0 0))
                    (monthBranch (getMonthFromSolarTerm_rev year month day 0 0))"
proof -
  define mi where "mi = monthIndexOf (prevTerm (getNearestSolarTerm year month day)) month"
  define ys where "ys = (year - 4) mod 10"
  define b where "b = ([2, 4, 6, 8, 0, 2, 4, 6, 8, 0] ! nat ys :: int)"
  have mi: "0 \<le> mi" "mi \<le> 11"
    using monthIndexOf_range [of "prevTerm (getNearestSolarTerm year month day)" month]
      getNearestSolarTerm_defined [OF assms, of year]
    by (simp_all add: mi_def)
  have ys: "0 \<le> ys" "ys < 10"
    by (simp_all add: ys_def)
  have b: "even b" "0 \<le> b"
    using monthStemBase_even [OF ys] by (simp_all add: b_def)
  have s: "js_rem (b + mi) 10 = (b + mi) mod 10"
    using b mi by (intro js_rem_nonneg) simp_all
  have par: "((b + mi) mod 10 - mi) mod 2 = 0"
    using b(1) by (simp add: parity_10)
  have "sexagenary (js_nth STEMS ((b + mi) mod 10)) (js_nth monthBranchNames mi)"
    using par mi by (intro sexagenary_monthI) simp_all
  then show ?thesis
    by (simp add: getMonthFromSolarTerm_rev_def Let_def js_wrap s
          flip: mi_def ys_def b_def)
qed

lemma dayPillar_int_mod:
  "dayPillar_int year month day =
     ((getJulianDay_int year month day + 49) mod 10, (getJulianDay_int year month day + 1) mod 12)"
  by (simp add: dayPillar_int_def dayStemIdxOf_def dayBranchIdxOf_def Let_def js_wrap)

lemma day_int_sexagenary:
  "sexagenary (js_nth STEMS (fst (dayPillar_int year month day)))
              (js_nth BRANCHES (snd (dayPillar_int year month day)))"
proof -
  define jd where "jd = getJulianDay_int year month day"
  have "((jd + 49) mod 10 - (jd + 1) mod 12) mod 2 = 0"
    by (simp add: parity_10_12)
  then have "sexagenary (js_nth STEMS ((jd + 49) mod 10)) (js_nth BRANCHES ((jd + 1) mod 12))"
    by (intro sexagenaryI) simp_all
  then show ?thesis
    by (simp add: dayPillar_int_mod jd_def)
qed

lemma pillars_rev_sexagenary:
  assumes "1 \<le> month" "1 \<le> day" "0 \<le> hour" "hour \<le> 11"
  shows "\<forall>(s, b) \<in> set (pillarNames (calcBaziPillars_rev newDate year month day hour gender)).
           sexagenary s b"
proof -
  have d: "0 \<le> fst (dayPillar_int year month day)" "fst (dayPillar_int year month day) < 10"
    by (simp_all add: dayPillar_int_mod)
  show ?thesis
    unfolding pillarNames_calcBaziPillars_rev
    using year_pillar_sexagenary [of year month day]
      month_rev_sexagenary [OF assms(1,2), of "actualYear (getYearFromSolarTerm year month day)"]
      day_int_sexagenary [of year month day]
      hour_pillar_sexagenary [OF assms(3,4) d]
    by simp
qed

subsection \<open>The chart of 2000-01-05\<close>

lemma month_2000_01_05:
  "getMonthFromSolarTerm 2000 1 5 0 0 =
     \<lparr>monthStem = ''wu'', monthBranch = ''yin'', monthStemIdx = 4, monthBranchIdx = 0,
       termName = Some DongZhi\<rparr>"
  unfolding getMonthFromSolarTerm_def nearest_2000_01_05 by code_simp

lemma year_2000_01_05:
  "getYearFromSolarTerm 2000 1 5 =
     \<lparr>yearStem = ''ji'', yearBranch = ''mao'', yearStemIdx = 5, yearBranchIdx = 3,
       zodiac = ''tu'', actualYear = 1999\<rparr>"
  unfolding getYearFromSolarTerm_def lookup_terms term_2000_2 by code_simp

lemma day_2000_01_05: "dayPillar_bazi 2000 1 5 = (7, 9)"
  by code_simp

lemma chart_2000_01_05:
  "pillarNames (calcBaziPillars utcDate 2000 1 5 0 ''m'') =
     [(''ji'', ''mao''), (''wu'', ''yin''), (''xin'', ''you''), (''wu'', ''zi'')]"
  unfolding pillarNames_calcBaziPillars month_2000_01_05 year_2000_01_05 day_2000_01_05
  by code_simp

lemma dayun_2000_01_05_yin:
  "calcDaYunPrecise utcDate 2000 1 5 0 0 ''m'' 5 =
     \<lparr>startAge = 20, direction = ''nixing'', daysToNext = Some 6, daysFromPrev = Some 358,
       dy_prevTerm = Some DongZhi, dy_nextTerm = Some XiaoHan, details = None\<rparr>"
  unfolding calcDaYunPrecise_def nearest_2000_01_05 by code_simp

lemma dayun_2000_01_05_yang:
  "calcDaYunPrecise utcDate 2000 1 5 0 0 ''m'' 6 =
     \<lparr>startAge = 1, direction = ''shunxing'', daysToNext = Some 6, daysFromPrev = Some 358,
       dy_prevTerm = Some DongZhi, dy_nextTerm = Some XiaoHan, details = None\<rparr>"
  unfolding calcDaYunPrecise_def nearest_2000_01_05 by code_simp

section \<open>Solar terms: results\<close>

text \<open>
  C1. \<^verbatim>\<open>getSolarTerms\<close> returns 24 terms, but for the year 2000 they are not in
  chronological order: the second term (9 February) comes after the third (7 February),
  and the last term has wrapped past December into month 1 while keeping the year 2000,
  because the carry loop resets the month to 1 and the test \<^verbatim>\<open>month > 12\<close> that
  would assign the following year never holds.
\<close>

theorem solar_terms_2000_disorder:
  "length (getSolarTerms 2000) = 24 \<and>
   map_of (getSolarTerms 2000) DaHan =
     Some \<lparr>st_month = 2, st_day = 9, st_hour = 9, st_minute = 0, st_year = 2000\<rparr> \<and>
   map_of (getSolarTerms 2000) LiChun =
     Some \<lparr>st_month = 2, st_day = 7, st_hour = 3, st_minute = 14, st_year = 2000\<rparr> \<and>
   map_of (getSolarTerms 2000) DaXue =
     Some \<lparr>st_month = 12, st_day = 14, st_hour = 1, st_minute = 10, st_year = 2000\<rparr> \<and>
   map_of (getSolarTerms 2000) DongZhi =
     Some \<lparr>st_month = 1, st_day = 12, st_hour = 0, st_minute = 28, st_year = 2000\<rparr> \<and>
   \<not> sorted_wrt earlier (termDates 2000)"
proof -
  have len: "length (getSolarTerms 2000) = 24"
    by (simp add: getSolarTerms_def)
  have dahan: "map_of (getSolarTerms 2000) DaHan =
      Some \<lparr>st_month = 2, st_day = 9, st_hour = 9, st_minute = 0, st_year = 2000\<rparr>"
    using map_of_getSolarTerms [of 1 2000] unfolding term_2000_1
    by (simp add: termNames_def)
  have "termDates 2000 ! 1 = solarTermAt 2000 1" "termDates 2000 ! 2 = solarTermAt 2000 2"
    by (rule termDates_nth, simp)+
  then have "\<not> earlier (termDates 2000 ! 1) (termDates 2000 ! 2)"
    unfolding term_2000_1 term_2000_2 by (simp add: earlier_def)
  then have "\<not> sorted_wrt earlier (termDates 2000)"
    using sorted_wrt_nth_less [of earlier "termDates 2000" 1 2]
    by (auto simp: length_termDates)
  with len dahan show ?thesis
    by (simp add: lookup_LiChun lookup_DaXue lookup_DongZhi
          term_2000_2 term_2000_22 term_2000_23)
qed
section \<open>Year pillar: results\<close>

text \<open>
  C2. The year pillar of bazi.js does not follow the start-of-spring rule. The table
  \<^verbatim>\<open>base\<close> records the term of 2000 as 4 February, but \<^verbatim>\<open>getSolarTerms\<close> returns
  7 February for it, so a birth on 2000-02-05, after the start of spring, is given the
  previous year: the year that counts is 1999 and the pillar is stem 5, branch 3, where
  the input year gives stem 6, branch 4 (the value of \<^verbatim>\<open>getYearSimplified\<close>, the
  function's own fallback). For 1964 the term returned is month 2, day -1, that is
  30 January; a birth on 1964-01-31 lies after it, yet the comparison of the encoded
  dates puts month 1 before month 2 and the year that counts is 1963.
\<close>

theorem year_pillar_failures:
  "base ! 2 = (2, 4, 3, 14) \<and>
   map_of (getSolarTerms 2000) LiChun =
     Some \<lparr>st_month = 2, st_day = 7, st_hour = 3, st_minute = 14, st_year = 2000\<rparr> \<and>
   getYearFromSolarTerm 2000 2 5 =
     \<lparr>yearStem = ''ji'', yearBranch = ''mao'', yearStemIdx = 5, yearBranchIdx = 3,
       zodiac = ''tu'', actualYear = 1999\<rparr> \<and>
   getYearSimplified 2000 =
     \<lparr>yearStem = ''geng'', yearBranch = ''chen'', yearStemIdx = 6, yearBranchIdx = 4,
       zodiac = ''long'', actualYear = 2000\<rparr> \<and>
   map_of (getSolarTerms 1964) LiChun =
     Some \<lparr>st_month = 2, st_day = - 1, st_hour = 3, st_minute = 14, st_year = 1964\<rparr> \<and>
   getYearFromSolarTerm 1964 1 31 =
     \<lparr>yearStem = ''gui'', yearBranch = ''mao'', yearStemIdx = 9, yearBranchIdx = 3,
       zodiac = ''tu'', actualYear = 1963\<rparr>"
  by (simp add: base_lichun lookup_terms term_2000_2 term_1964_2
        year_2000_02_05 year_simplified_2000 year_1964_01_31)

section \<open>Month pillar: results\<close>

text \<open>
  C3. The month pillar of bazi.js does not follow the rule of the most recent sectional
  term. On 2000-02-20, after the start-of-spring term (7 February) and before the
  awakening-of-insects term (10 March) of the function's own table, the previous term is
  the start of spring and the month index is 0, yet the branch shown is \<open>''chen''\<close>
  (dragon), not \<open>''yin''\<close> (tiger): the name list starting at the tiger is read at the
  index already shifted by 2. On 2000-02-08, also between those two terms, the previous
  term found is the minor cold, because the table of the year is out of order. On
  1964-03-31 the previous term is the spring equinox, which the chain maps to month
  index 0 although the sectional term before it (1 March) opens month 1; the source's
  own table \<^verbatim>\<open>TERM_MONTH_INDEX\<close> gives 1 for the equinox and 2 for the grain rain.
  The revision of part_003 returns the tiger on 2000-02-20.
\<close>

theorem month_pillar_failures:
  "map_of (getSolarTerms 2000) LiChun =
     Some \<lparr>st_month = 2, st_day = 7, st_hour = 3, st_minute = 14, st_year = 2000\<rparr> \<and>
   map_of (getSolarTerms 2000) JingZhe =
     Some \<lparr>st_month = 3, st_day = 10, st_hour = 23, st_minute = 29, st_year = 2000\<rparr> \<and>
   getMonthFromSolarTerm 2000 2 20 0 0 =
     \<lparr>monthStem = ''wu'', monthBranch = ''chen'', monthStemIdx = 4, monthBranchIdx = 2,
       termName = Some LiChun\<rparr> \<and>
   getMonthFromSolarTerm 2000 2 8 0 0 =
     \<lparr>monthStem = ''ji'', monthBranch = ''mao'', monthStemIdx = 5, monthBranchIdx = 1,
       termName = Some XiaoHan\<rparr> \<and>
   map_of (getSolarTerms 1964) JingZhe =
     Some \<lparr>st_month = 3, st_day = 1, st_hour = 23, st_minute = 29, st_year = 1964\<rparr> \<and>
   getMonthFromSolarTerm 1964 3 31 0 0 =
     \<lparr>monthStem = ''bing'', monthBranch = ''chen'', monthStemIdx = 2, monthBranchIdx = 2,
       termName = Some ChunFen\<rparr> \<and>
   monthIndexOf (Some JingZhe) 3 = 1 \<and> monthIndexOf (Some ChunFen) 3 = 0 \<and>
   monthIndexOf (Some QingMing) 4 = 2 \<and> monthIndexOf (Some GuYu) 4 = 1 \<and>
   getMonthFromSolarTerm_rev 2000 2 20 0 0 =
     \<lparr>monthStem = ''wu'', monthBranch = ''yin'', monthStemIdx = 4, monthBranchIdx = 0,
       termName = Some LiChun\<rparr>"
  by (simp add: lookup_terms term_2000_2 term_2000_4 term_1964_4
        month_2000_02_20 month_2000_02_08 month_1964_03_31 month_rev_2000_02_20
        monthIndexOf_def)

section \<open>Day pillar: results\<close>

text \<open>
  C4. On the reference date 2000-01-07 the day pillar of bazi.js is stem 9, branch 11
  (\<open>''gui''\<close>, \<open>''hai''\<close>), not stem 0, branch 0: \<^verbatim>\<open>getJulianDay\<close> returns
  2451550.5 and \<^verbatim>\<open>Math.floor\<close> takes it down to the previous day. The two revisions
  of part_003 give stem 0, branch 0 on that date. Each function is a function of the
  date alone, so the same input yields the same pillar.
\<close>

theorem day_pillar_reference_date:
  "getJulianDay 2000 1 7 = 4903101 / 2 \<and>
   dayPillar_bazi 2000 1 7 = (9, 11) \<and>
   pillarNames (calcBaziPillars utcDate 2000 1 7 0 ''m'') ! 2 = (''gui'', ''hai'') \<and>
   getDayStemBranch 2000 1 7 = \<lparr>stemIdx = 0, branchIdx = 0\<rparr> \<and>
   dayPillar_int 2000 1 7 = (0, 0)"
proof -
  have "pillarNames (calcBaziPillars utcDate 2000 1 7 0 ''m'') ! 2 =
      (js_nth STEMS 9, js_nth BRANCHES 11)"
    unfolding pillarNames_calcBaziPillars day_bazi_ref by simp
  also have "\<dots> = (''gui'', ''hai'')"
    by code_simp
  finally show ?thesis
    by (simp add: julian_ref day_bazi_ref day_jieqi_ref day_int_ref)
qed

text \<open>
  C5. The day pillar of bazi.js differs from that of \<^verbatim>\<open>getDayStemBranch\<close> and from that
  of the integer \<^verbatim>\<open>getJulianDay\<close> of part_003, in stem and in branch, on 2000-01-07;
  the functions are not extensionally equal.
\<close>

theorem day_pillar_revisions_differ:
  "(\<exists>year month day.
      fst (dayPillar_bazi year month day) \<noteq> stemIdx (getDayStemBranch year month day) \<and>
      snd (dayPillar_bazi year month day) \<noteq> branchIdx (getDayStemBranch year month day)) \<and>
   (\<exists>year month day.
      fst (dayPillar_bazi year month day) \<noteq> fst (dayPillar_int year month day) \<and>
      snd (dayPillar_bazi year month day) \<noteq> snd (dayPillar_int year month day)) \<and>
   dayPillar_bazi \<noteq> dayPillar_int"
proof -
  have a: "fst (dayPillar_bazi 2000 1 7) \<noteq> stemIdx (getDayStemBranch 2000 1 7) \<and>
      snd (dayPillar_bazi 2000 1 7) \<noteq> branchIdx (getDayStemBranch 2000 1 7)"
    by (simp add: day_bazi_ref day_jieqi_ref)
  have b: "fst (dayPillar_bazi 2000 1 7) \<noteq> fst (dayPillar_int 2000 1 7) \<and>
      snd (dayPillar_bazi 2000 1 7) \<noteq> snd (dayPillar_int 2000 1 7)"
    by (simp add: day_bazi_ref day_int_ref)
  have c: "dayPillar_bazi \<noteq> dayPillar_int"
  proof
    assume "dayPillar_bazi = dayPillar_int"
    then have "dayPillar_bazi 2000 1 7 = dayPillar_int 2000 1 7"
      by simp
    then show False
      by (simp add: day_bazi_ref day_int_ref)
  qed
  from a b c show ?thesis
    by blast
qed

section \<open>Luck pillars: results\<close>

text \<open>
  C6. For every birth date with month and day at least 1 (so that the previous and the
  next term exist) and gender \<open>''m''\<close> or \<open>''f''\<close>, whatever the host's date arithmetic,
  hour, minute and year stem index are: the onset age lies in 1..20, and the direction is
  forward exactly when the year stem index is even and the gender male, or odd and
  female, and backward otherwise.
\<close>

theorem dayun_onset_and_direction:
  assumes "1 \<le> month" "1 \<le> day" "gender = ''m'' \<or> gender = ''f''"
  shows "1 \<le> startAge (calcDaYunPrecise newDate year month day hour minute gender yStemIdx) \<and>
         startAge (calcDaYunPrecise newDate year month day hour minute gender yStemIdx) \<le> 20 \<and>
         (direction (calcDaYunPrecise newDate year month day hour minute gender yStemIdx) = ''shunxing''
            \<longleftrightarrow> (even yStemIdx \<and> gender = ''m'') \<or> (odd yStemIdx \<and> gender = ''f'')) \<and>
         (direction (calcDaYunPrecise newDate year month day hour minute gender yStemIdx) = ''nixing''
            \<longleftrightarrow> \<not> ((even yStemIdx \<and> gender = ''m'') \<or> (odd yStemIdx \<and> gender = ''f'')))"
proof -
  obtain pd nd where pn: "prevDate (getNearestSolarTerm year month day) = Some pd"
      "nextDate (getNearestSolarTerm year month day) = Some nd"
    using getNearestSolarTerm_defined [OF assms(1,2), of year] by auto
  have f: "gender \<noteq> ''m'' \<longleftrightarrow> gender = ''f''"
    using assms(3) by auto
  show ?thesis
    unfolding calcDaYunPrecise_def Let_def pn
    using clamp_floor f by (simp add: js_rem_even)
qed


theorem dayun_onset_and_direction_witness:
  "(1 :: int) \<le> 1 \<and> (1 :: int) \<le> 5 \<and>
   startAge (calcDaYunPrecise utcDate 2000 1 5 0 0 ''m'' 5) = 20 \<and>
   direction (calcDaYunPrecise utcDate 2000 1 5 0 0 ''m'' 5) = ''nixing'' \<and>
   startAge (calcDaYunPrecise utcDate 2000 1 5 0 0 ''m'' 6) = 1 \<and>
   direction (calcDaYunPrecise utcDate 2000 1 5 0 0 ''m'' 6) = ''shunxing''"
  using dayun_onset_and_direction [where month = 1 and day = 5 and gender = "''m''"
      and newDate = utcDate and year = 2000 and hour = 0 and minute = 0 and yStemIdx = 5]
    dayun_onset_and_direction [where month = 1 and day = 5 and gender = "''m''"
      and newDate = utcDate and year = 2000 and hour = 0 and minute = 0 and yStemIdx = 6]
  by (simp add: dayun_2000_01_05_yin dayun_2000_01_05_yang)

section \<open>Four pillars: results\<close>

text \<open>
  C7. For month and day at least 1 and an hour slot in 0..11, each of the four pillars of
  \<^verbatim>\<open>calcBaziPillars\<close> of bazi.js carries a stem name and a branch name whose positions
  in the canonical lists have the same parity; each of the four pillars of the first
  \<^verbatim>\<open>calcBaziPillars\<close> of part_003 has a stem index in 0..9 and a branch index in 0..11
  of the same parity, and names to match, whatever the solar-term solver returns; and the
  pillars of the second \<^verbatim>\<open>calcBaziPillars\<close> of part_003 have names of equal parity too.
\<close>

theorem pillars_share_parity:
  assumes "1 \<le> month" "1 \<le> day" "0 \<le> hour" "hour \<le> 11"
  shows "(\<forall>p \<in> set (pillars (calcBaziPillars newDate year month day hour gender)).
            sexagenary (stem p) (branch p)) \<and>
         (\<forall>p \<in> set (calcBaziPillars_jieqi calcSolarTerm year month day hour gender).
            in_cycle \<lparr>stemIdx = pi_stemIdx p, branchIdx = pi_branchIdx p\<rparr> \<and>
            sexagenary (pi_stem p) (pi_branch p)) \<and>
         (\<forall>p \<in> set (pillars (calcBaziPillars_rev newDate year month day hour gender)).
            sexagenary (stem p) (branch p))"
proof -
  have "\<forall>(s, b) \<in> set (pillarNames (calcBaziPillars newDate year month day hour gender)).
          sexagenary s b"
    using pillars_bazi_sexagenary [OF assms] .
  then have a: "\<forall>p \<in> set (pillars (calcBaziPillars newDate year month day hour gender)).
      sexagenary (stem p) (branch p)"
    by (simp add: pillarNames_def)
  have "\<forall>(s, b) \<in> set (pillarNames (calcBaziPillars_rev newDate year month day hour gender)).
          sexagenary s b"
    using pillars_rev_sexagenary [OF assms] .
  then have c: "\<forall>p \<in> set (pillars (calcBaziPillars_rev newDate year month day hour gender)).
      sexagenary (stem p) (branch p)"
    by (simp add: pillarNames_def)
  from a c pillars_jieqi_in_cycle [OF assms(3,4)] show ?thesis
    by blast
qed

theorem pillars_share_parity_witness:
  "(1 :: int) \<le> 1 \<and> (1 :: int) \<le> 5 \<and> (0 :: int) \<le> 0 \<and> (0 :: int) \<le> 11 \<and>
   pillarNames (calcBaziPillars utcDate 2000 1 5 0 ''m'') =
     [(''ji'', ''mao''), (''wu'', ''yin''), (''xin'', ''you''), (''wu'', ''zi'')] \<and>
   sexagenary ''ji'' ''mao'' \<and> sexagenary ''wu'' ''yin'' \<and>
   sexagenary ''xin'' ''you'' \<and> sexagenary ''wu'' ''zi'' \<and>
   list_all (\<lambda>p. in_cycle \<lparr>stemIdx = pi_stemIdx p, branchIdx = pi_branchIdx p\<rparr> \<and>
                  sexagenary (pi_stem p) (pi_branch p))
     (calcBaziPillars_jieqi solarTermAt 2000 1 5 0 ''m'') \<and>
   list_all (\<lambda>p. sexagenary (stem p) (branch p))
     (pillars (calcBaziPillars_rev utcDate 2000 1 5 0 ''m''))"
proof -
  note t = pillars_share_parity [of 1 5 0 utcDate 2000 "''m''" solarTermAt]
  have a: "\<forall>p \<in> set (pillars (calcBaziPillars utcDate 2000 1 5 0 ''m'')).
      sexagenary (stem p) (branch p)"
    using t by simp
  have b: "list_all (\<lambda>p. in_cycle \<lparr>stemIdx = pi_stemIdx p, branchIdx = pi_branchIdx p\<rparr> \<and>
                  sexagenary (pi_stem p) (pi_branch p))
     (calcBaziPillars_jieqi solarTermAt 2000 1 5 0 ''m'')"
    using t by (simp add: list_all_iff)
  have c: "list_all (\<lambda>p. sexagenary (stem p) (branch p))
     (pillars (calcBaziPillars_rev utcDate 2000 1 5 0 ''m''))"
    using t by (simp add: list_all_iff)
  from a have "\<forall>(s, b) \<in> set (pillarNames (calcBaziPillars utcDate 2000 1 5 0 ''m'')).
      sexagenary s b"
    by (simp add: pillarNames_def)
  then have "sexagenary ''ji'' ''mao'' \<and> sexagenary ''wu'' ''yin'' \<and>
      sexagenary ''xin'' ''you'' \<and> sexagenary ''wu'' ''zi''"
    unfolding chart_2000_01_05 by simp
  with b c show ?thesis
    by (simp add: chart_2000_01_05)
qed

section \<open>Entry point: results\<close>

text \<open>
  C9, as stated, fails: the entry point checks the year only. With the year 2000 and the
  month 13 both revisions compute and render a chart.
\<close>

theorem calcBazi_month_13_counterexample:
  "calcBazi utcDate (Some 2000) 13 1 0 ''m'' =
     Rendered (calcBaziPillars utcDate 2000 13 1 0 ''m'') \<and>
   pillarNames (calcBaziPillars utcDate 2000 13 1 0 ''m'') =
     [(''geng'', ''chen''), (''wu'', ''yin''), (''gui'', ''hai''), (''ren'', ''zi'')] \<and>
   calcBazi_rev utcDate ''solar'' (Some 2000) 13 1 0 ''m'' =
     Rendered_rev (calcBaziPillars_rev utcDate 2000 13 1 0 ''m'') ''solar''"
  by (simp add: calcBazi_def calcBazi_rev_def chart_month_13)

text \<open>
  C9, amended. A request whose year does not parse, is 0, or lies outside 1900..2100 is
  answered with the alert and no chart, whatever the other fields are; a request whose
  year lies within 1900..2100 is computed and rendered whatever month, day and hour
  are (in part_003 after the conversion of a lunar date).
\<close>

theorem calcBazi_year_guard:
  "(year = None \<or> (\<exists>y. year = Some y \<and> (y < 1900 \<or> 2100 < y)) \<longrightarrow>
      calcBazi newDate year month day hour gender =
        Alert ''qing shuru youxiao nianfen (1900-2100)'' \<and>
      calcBazi_rev newDate calendarType year month day hour gender =
        Alert_rev ''qing shuru youxiao nianfen (1900-2100)'') \<and>
   (\<forall>y. year = Some y \<and> 1900 \<le> y \<and> y \<le> 2100 \<longrightarrow>
      calcBazi newDate year month day hour gender =
        Rendered (calcBaziPillars newDate y month day hour gender) \<and>
      calcBazi_rev newDate calendarType year month day hour gender =
        (let c = (if calendarType = ''lunar'' then lunarToSolar y month day
                  else \<lparr>sd_year = y, sd_month = month, sd_day = day\<rparr>)
         in Rendered_rev
              (calcBaziPillars_rev newDate (sd_year c) (sd_month c) (sd_day c) hour gender)
              calendarType))"
  by (auto simp: calcBazi_def calcBazi_rev_def Let_def)

theorem calcBazi_year_guard_witness:
  "calcBazi utcDate (Some 1899) 5 15 5 ''m'' = Alert ''qing shuru youxiao nianfen (1900-2100)'' \<and>
   calcBazi utcDate (Some 2101) 5 15 5 ''m'' = Alert ''qing shuru youxiao nianfen (1900-2100)'' \<and>
   calcBazi utcDate None 5 15 5 ''m'' = Alert ''qing shuru youxiao nianfen (1900-2100)'' \<and>
   calcBazi_rev utcDate ''solar'' (Some 1899) 5 15 5 ''m'' =
     Alert_rev ''qing shuru youxiao nianfen (1900-2100)'' \<and>
   calcBazi utcDate (Some 1990) 5 15 5 ''m'' = Rendered (calcBaziPillars utcDate 1990 5 15 5 ''m'') \<and>
   calcBazi_rev utcDate ''solar'' (Some 1990) 5 15 5 ''m'' =
     Rendered_rev (calcBaziPillars_rev utcDate 1990 5 15 5 ''m'') ''solar''"
  using calcBazi_year_guard [of "Some 1899" utcDate 5 15 5 "''m''" "''solar''"]
    calcBazi_year_guard [of "Some 2101" utcDate 5 15 5 "''m''" "''solar''"]
    calcBazi_year_guard [of None utcDate 5 15 5 "''m''" "''solar''"]
    calcBazi_year_guard [of "Some 1990" utcDate 5 15 5 "''m''" "''solar''"]
  by simp

section \<open>Flying stars: results\<close>

lemma centerStar_cases: "centerStar year = 7 \<or> centerStar year = 8 \<or> centerStar year = 9"
  by (simp add: centerStar_def)

lemma stars_from_7:
  "map star (flyForward 7 positions) = [8, 9, 1, 2, 3, 4, 5, 6]"
  by (simp add: positions_def)

lemma stars_from_8:
  "map star (flyForward 8 positions) = [9, 1, 2, 3, 4, 5, 6, 7]"
  by (simp add: positions_def)

lemma stars_from_9:
  "map star (flyForward 9 positions) = [1, 2, 3, 4, 5, 6, 7, 8]"
  by (simp add: positions_def)

lemma coords_flyForward:
  "map (\<lambda>p. (row p, col p)) (flyForward s positions) =
     [(2, 1), (3, 0), (3, 1), (3, 2), (0, 2), (0, 1), (0, 0), (1, 2)]"
  by (simp add: positions_def Let_def)

text \<open>
  C8. The star in the centre palace is 7 for the years 1984 to 2003, 8 for 2004 to 2023 and
  9 for 2024 to 2043; in particular 2003 gives 7, 2004 gives 8 and 2024 gives 9.
\<close>

theorem center_star_epochs:
  "(1984 \<le> year \<and> year \<le> 2003 \<longrightarrow> star (hd (calcFlyingStars year)) = 7) \<and>
   (2004 \<le> year \<and> year \<le> 2023 \<longrightarrow> star (hd (calcFlyingStars year)) = 8) \<and>
   (2024 \<le> year \<and> year \<le> 2043 \<longrightarrow> star (hd (calcFlyingStars year)) = 9) \<and>
   position (hd (calcFlyingStars year)) = ''zhonggong''"
  by (simp add: calcFlyingStars_def centerStar_def)

theorem center_star_epochs_witness:
  "star (hd (calcFlyingStars 2003)) = 7 \<and>
   star (hd (calcFlyingStars 2004)) = 8 \<and>
   star (hd (calcFlyingStars 2024)) = 9 \<and>
   star (hd (calcFlyingStars 1984)) = 7 \<and>
   star (hd (calcFlyingStars 2023)) = 8 \<and>
   star (hd (calcFlyingStars 2043)) = 9"
  using center_star_epochs [of 2003] center_star_epochs [of 2004]
    center_star_epochs [of 2024] center_star_epochs [of 1984]
    center_star_epochs [of 2023] center_star_epochs [of 2043]
  by simp

text \<open>
  C10. For every year the result has nine entries and the stars are a permutation of
  1..9. The coordinates, however, are the same nine pairs for every year and they are not
  the cells of the 3x3 grid: three entries sit in row 3, outside the grid, and the cells
  (1,0), (2,0) and (2,2) are never produced.
\<close>

theorem flying_stars_layout:
  "length (calcFlyingStars year) = 9 \<and>
   mset (map star (calcFlyingStars year)) = mset [1, 2, 3, 4, 5, 6, 7, 8, 9] \<and>
   map (\<lambda>p. (row p, col p)) (calcFlyingStars year) =
     [(1, 1), (2, 1), (3, 0), (3, 1), (3, 2), (0, 2), (0, 1), (0, 0), (1, 2)] \<and>
   set (map (\<lambda>p. (row p, col p)) (calcFlyingStars year)) \<noteq> grid3"
proof -
  have len: "length (calcFlyingStars year) = 9"
    by (simp add: calcFlyingStars_def positions_def Let_def)
  have stars: "map star (calcFlyingStars year) = [7, 8, 9, 1, 2, 3, 4, 5, 6] \<or>
      map star (calcFlyingStars year) = [8, 9, 1, 2, 3, 4, 5, 6, 7] \<or>
      map star (calcFlyingStars year) = [9, 1, 2, 3, 4, 5, 6, 7, 8]"
    using centerStar_cases [of year]
    by (auto simp: calcFlyingStars_def stars_from_7 stars_from_8 stars_from_9)
  have perm: "mset (map star (calcFlyingStars year)) = mset [1, 2, 3, 4, 5, 6, 7, 8, 9]"
    using stars by (elim disjE) (simp_all only: mset.simps add_mset_commute)
  have coords: "map (\<lambda>p. (row p, col p)) (calcFlyingStars year) =
      [(1, 1), (2, 1), (3, 0), (3, 1), (3, 2), (0, 2), (0, 1), (0, 0), (1, 2)]"
    by (simp add: calcFlyingStars_def coords_flyForward)
  have "(3, 0) \<in> set (map (\<lambda>p. (row p, col p)) (calcFlyingStars year))"
    unfolding coords by simp
  moreover have "(3, 0) \<notin> grid3"
    by (simp add: grid3_def)
  ultimately have "set (map (\<lambda>p. (row p, col p)) (calcFlyingStars year)) \<noteq> grid3"
    by blast
  with len perm coords show ?thesis by simp
qed

end
